theory Spec2Isabelle
  imports Complex_Main "HOL-Library.AList"
begin

section \<open>The knowledge graph resolver (knowledgeGraph.ts)\<close>

text \<open>
  The eight node categories of the \<^verbatim>\<open>KnowledgeNode\<close> interface.
\<close>

datatype category =
  Star | Constellation | Game | Terminal | Loop | Visit | Time | Meta

text \<open>
  \<^verbatim>\<open>interface KnowledgeNode\<close>.  The field \<^verbatim>\<open>id\<close> is called \<open>node_id\<close> here,
  because \<open>id\<close> is the identity function of HOL.
\<close>

record KnowledgeNode =
  node_id :: string
  label :: string
  category :: category
  description :: string
  requires :: "string list"
  unlocks :: "string list"
  hint :: string

record KnowledgeGraphData =
  nodes :: "KnowledgeNode list"

text \<open>The static graph definition, \<^verbatim>\<open>const graphData\<close>, node by node and in its order.\<close>

definition graphData :: KnowledgeGraphData where
  "graphData = \<lparr>nodes = [
     \<lparr>node_id = ''star:first-click'', label = ''First Light'', category = Star,
      description = ''You clicked your first star.'',
      requires = [], unlocks = [''star:pattern-hint''],
      hint = ''The stars are not just decoration.''\<rparr>,
     \<lparr>node_id = ''star:pattern-hint'', label = ''Pattern Recognition'', category = Star,
      description = ''A hint appeared about star patterns.'',
      requires = [''star:first-click''], unlocks = [],
      hint = ''Some stars belong together.''\<rparr>,
     \<lparr>node_id = ''constellation:orion'', label = ''The Hunter'', category = Constellation,
      description = ''You formed the Orion constellation.'',
      requires = [''star:first-click''], unlocks = [''gate:orion-story''],
      hint = ''Three stars in a row...''\<rparr>,
     \<lparr>node_id = ''constellation:cassiopeia'', label = ''The Queen'', category = Constellation,
      description = ''You formed the Cassiopeia constellation.'',
      requires = [''star:first-click''], unlocks = [''gate:cassiopeia-story''],
      hint = ''Five stars make a W.''\<rparr>,
     \<lparr>node_id = ''constellation:lyra'', label = ''The Lyre'', category = Constellation,
      description = ''You formed the Lyra constellation.'',
      requires = [''star:first-click''], unlocks = [''gate:lyra-story''],
      hint = ''Music lives among the stars.''\<rparr>,
     \<lparr>node_id = ''game:star-catcher'', label = ''Star Catcher'', category = Game,
      description = ''You completed Star Catcher.'',
      requires = [], unlocks = [''gate:game-stories''],
      hint = ''Some words are more than text.''\<rparr>,
     \<lparr>node_id = ''game:signal-decoder'', label = ''Signal Decoder'', category = Game,
      description = ''You completed Signal Decoder.'',
      requires = [], unlocks = [''gate:game-stories''],
      hint = ''Listen to the signals.''\<rparr>,
     \<lparr>node_id = ''game:gravity-hop'', label = ''Gravity Hop'', category = Game,
      description = ''You completed Gravity Hop.'',
      requires = [], unlocks = [''gate:game-stories''],
      hint = ''What goes up...''\<rparr>,
     \<lparr>node_id = ''game:nebula-painter'', label = ''Nebula Painter'', category = Game,
      description = ''You completed Nebula Painter.'',
      requires = [], unlocks = [''gate:game-stories''],
      hint = ''Create something beautiful.''\<rparr>,
     \<lparr>node_id = ''terminal:first-command'', label = ''First Transmission'', category = Terminal,
      description = ''You typed your first terminal command.'',
      requires = [], unlocks = [''gate:terminal-stories''],
      hint = ''Up up down down...''\<rparr>,
     \<lparr>node_id = ''loop:first-reset'', label = ''Time Loop'', category = Loop,
      description = ''You experienced your first 22-minute loop.'',
      requires = [], unlocks = [''gate:loop-story''],
      hint = ''Time moves in circles here.''\<rparr>,
     \<lparr>node_id = ''visit:returning'', label = ''Return Visitor'', category = Visit,
      description = ''You came back.'',
      requires = [], unlocks = [''gate:returning-content''],
      hint = ''Come back tomorrow.''\<rparr>,
     \<lparr>node_id = ''meta:deep-game'', label = ''The Deep'', category = Meta,
      description = ''You found the deep game.'',
      requires = [''star:first-click'', ''terminal:first-command'', ''game:star-catcher''],
      unlocks = [''game:deep-complete''],
      hint = ''There is more beyond what you see.''\<rparr>,
     \<lparr>node_id = ''game:deep-complete'', label = ''Deep Explorer'', category = Game,
      description = ''You completed the deep game.'',
      requires = [''meta:deep-game''], unlocks = [],
      hint = ''Finish what you started in the deep.''\<rparr>
   ]\<rparr>"

text \<open>
  The resolver's functions read the module constant \<^verbatim>\<open>graphData\<close>.  Here the graph is
  an argument \<open>g\<close>, so that the same functions can be run on a test graph; the program is
  the instance \<open>g = graphData\<close>.

  \<^verbatim>\<open>Array.prototype.includes\<close> on an array of strings is list membership,
  \<^verbatim>\<open>find\<close> returns the first match or \<^verbatim>\<open>undefined\<close> (\<open>None\<close>), \<^verbatim>\<open>every\<close> and
  \<^verbatim>\<open>some\<close> are \<open>list_all\<close> and \<open>list_ex\<close>.
\<close>

definition array_includes :: "string list \<Rightarrow> string \<Rightarrow> bool" where
  "array_includes xs x \<longleftrightarrow> x \<in> set xs"

definition getNodes :: "KnowledgeGraphData \<Rightarrow> KnowledgeNode list" where
  "getNodes g = nodes g"

definition getNode :: "KnowledgeGraphData \<Rightarrow> string \<Rightarrow> KnowledgeNode option" where
  "getNode g i = find (\<lambda>n. node_id n = i) (nodes g)"

definition isUnlocked :: "KnowledgeGraphData \<Rightarrow> string \<Rightarrow> string list \<Rightarrow> bool" where
  "isUnlocked g nodeId discoveries =
     (case getNode g nodeId of
        None \<Rightarrow> False
      | Some node \<Rightarrow> list_all (\<lambda>req. array_includes discoveries req) (requires node))"

definition getUnlockedBy :: "KnowledgeGraphData \<Rightarrow> string \<Rightarrow> KnowledgeNode list" where
  "getUnlockedBy g discoveryId = filter (\<lambda>n. array_includes (requires n) discoveryId) (nodes g)"

definition getDiscoveredNodes :: "KnowledgeGraphData \<Rightarrow> string list \<Rightarrow> KnowledgeNode list" where
  "getDiscoveredNodes g discoveries = filter (\<lambda>n. array_includes discoveries (node_id n)) (nodes g)"

definition getHintableNodes :: "KnowledgeGraphData \<Rightarrow> string list \<Rightarrow> KnowledgeNode list" where
  "getHintableNodes g discoveries =
     filter (\<lambda>n. if array_includes discoveries (node_id n) then False
                 else length (requires n) = 0
                      \<or> list_ex (\<lambda>req. array_includes discoveries req) (requires n))
            (nodes g)"

text \<open>
  \<^verbatim>\<open>Math.round\<close> rounds to the nearest integer, a half upwards.
\<close>

definition Math_round :: "rat \<Rightarrow> int" where
  "Math_round x = \<lfloor>x + 1 / 2\<rfloor>"

text \<open>
  \<^verbatim>\<open>getProgress\<close>: \<^verbatim>\<open>Math.round((discoveries.length / graphData.nodes.length) * 100)\<close>.
  With no node the quotient is \<^verbatim>\<open>NaN\<close> or \<^verbatim>\<open>Infinity\<close> and so is the result: \<open>None\<close>.
  The quotient is computed in exact rationals.  JavaScript computes it in IEEE doubles,
  which gives the same integer whenever the exact percentage is not within rounding error
  of a half; for the 14 nodes of \<open>graphData\<close> the exact percentage \<open>50 n / 7\<close> is at least
  \<open>1 / 14\<close> away from every half, and for 12 nodes (\<open>25 n / 3\<close>) at least \<open>1 / 6\<close>,
  far more than the error of a double at any array length (below \<open>2 ^ 32\<close>).
\<close>

definition getProgress :: "KnowledgeGraphData \<Rightarrow> string list \<Rightarrow> int option" where
  "getProgress g discoveries =
     (if length (nodes g) = 0 then None
      else Some (Math_round
        ((of_nat (length discoveries) / of_nat (length (nodes g))) * 100)))"

text \<open>The three-node test graph of the specification: A, B requiring A, C requiring A and B.\<close>

definition testNode :: "string \<Rightarrow> string list \<Rightarrow> KnowledgeNode" where
  "testNode i reqs =
     \<lparr>node_id = i, label = i, category = Meta, description = [], requires = reqs,
      unlocks = [], hint = []\<rparr>"

definition abcGraph :: KnowledgeGraphData where
  "abcGraph = \<lparr>nodes = [testNode ''A'' [], testNode ''B'' [''A''],
                        testNode ''C'' [''A'', ''B'']]\<rparr>"

text \<open>A twelve-node graph: the first twelve nodes of the program's graph.\<close>

definition twelveNodes :: KnowledgeGraphData where
  "twelveNodes = \<lparr>nodes = take 12 (nodes graphData)\<rparr>"

text \<open>
  The progress formula as the specification words it, for comparison with \<open>getProgress\<close>:
  the share of graph node ids that occur in the supplied discoveries.
\<close>

definition getProgress_spec :: "KnowledgeGraphData \<Rightarrow> string list \<Rightarrow> int" where
  "getProgress_spec g discoveries =
     Math_round (100 * of_nat (card (set discoveries \<inter> set (map node_id (nodes g))))
                 / of_nat (card (set (map node_id (nodes g)))))"

section \<open>The state store (the store module)\<close>

subsection \<open>Values\<close>

text \<open>
  \<^verbatim>\<open>interface DiscoveryState\<close>.  A TypeScript \<^verbatim>\<open>number\<close> is a \<open>rat\<close>: every finite
  double is a rational, and the counters only ever add 1, which is exact below \<open>2 ^ 53\<close>.
\<close>

record DiscoveryState =
  version :: rat
  discoveries :: "string list"
  constellations :: "string list"
  gamesCompleted :: "string list"
  terminalCommands :: "string list"
  visitCount :: rat
  firstVisitDate :: string
  lastVisitDate :: string
  sessionStart :: rat
  loopCount :: rat
  audioEnabled :: bool
  totalClickedStars :: rat

text \<open>
  A value as \<^verbatim>\<open>JSON.parse\<close> returns it.  Types are erased at run time, so \<^verbatim>\<open>load\<close> and
  \<^verbatim>\<open>migrate\<close> work on such values; an object is the list of its properties, each key
  once, and a number is a finite double.
\<close>

datatype json =
  JNull | JBool bool | JNum rat | JStr string | JArr "json list" | JObj "(string \<times> json) list"

text \<open>One reading of the wall clock: \<^verbatim>\<open>new Date().toISOString()\<close> and \<^verbatim>\<open>Date.now()\<close>.\<close>

record clock =
  toISOString :: string
  now :: rat

definition STORAGE_KEY :: string where
  "STORAGE_KEY = ''observatory:state''"

definition SCHEMA_VERSION :: rat where
  "SCHEMA_VERSION = 1"

definition createDefaultState :: "clock \<Rightarrow> DiscoveryState" where
  "createDefaultState c =
     \<lparr>version = SCHEMA_VERSION,
      discoveries = [],
      constellations = [],
      gamesCompleted = [],
      terminalCommands = [],
      visitCount = 0,
      firstVisitDate = toISOString c,
      lastVisitDate = toISOString c,
      sessionStart = now c,
      loopCount = 0,
      audioEnabled = False,
      totalClickedStars = 0\<rparr>"

text \<open>
  The run-time object of a typed state, property by property in declaration order; it is
  also what \<^verbatim>\<open>JSON.parse(JSON.stringify(state))\<close> gives.
\<close>

definition properties :: "DiscoveryState \<Rightarrow> (string \<times> json) list" where
  "properties s =
     [(''version'', JNum (version s)),
      (''discoveries'', JArr (map JStr (discoveries s))),
      (''constellations'', JArr (map JStr (constellations s))),
      (''gamesCompleted'', JArr (map JStr (gamesCompleted s))),
      (''terminalCommands'', JArr (map JStr (terminalCommands s))),
      (''visitCount'', JNum (visitCount s)),
      (''firstVisitDate'', JStr (firstVisitDate s)),
      (''lastVisitDate'', JStr (lastVisitDate s)),
      (''sessionStart'', JNum (sessionStart s)),
      (''loopCount'', JNum (loopCount s)),
      (''audioEnabled'', JBool (audioEnabled s)),
      (''totalClickedStars'', JNum (totalClickedStars s))]"

definition toJson :: "DiscoveryState \<Rightarrow> json" where
  "toJson s = JObj (properties s)"

text \<open>
  Reading a property \<^verbatim>\<open>v.k\<close> of a value other than \<^verbatim>\<open>null\<close>: \<open>None\<close> is
  \<^verbatim>\<open>undefined\<close>.  Only objects have the properties the store reads (\<^verbatim>\<open>version\<close>,
  \<^verbatim>\<open>discoveries\<close>, \<^verbatim>\<open>visitCount\<close>, \<^verbatim>\<open>firstVisitDate\<close>); on \<^verbatim>\<open>null\<close> the read throws,
  which the callers handle before they use \<open>get_prop\<close>.
\<close>

definition get_prop :: "json \<Rightarrow> string \<Rightarrow> json option" where
  "get_prop v k = (case v of JObj kvs \<Rightarrow> map_of kvs k | _ \<Rightarrow> None)"

text \<open>
  Whether a run-time value inhabits \<^verbatim>\<open>DiscoveryState\<close>, and the typed state it is then.
  Properties outside the interface are allowed by the structural type and are dropped.
\<close>

fun strings_of :: "json list \<Rightarrow> string list option" where
  "strings_of [] = Some []"
| "strings_of (JStr s # xs) = map_option ((#) s) (strings_of xs)"
| "strings_of (_ # xs) = None"

definition num_prop :: "json \<Rightarrow> string \<Rightarrow> rat option" where
  "num_prop v k = (case get_prop v k of Some (JNum n) \<Rightarrow> Some n | _ \<Rightarrow> None)"

definition str_prop :: "json \<Rightarrow> string \<Rightarrow> string option" where
  "str_prop v k = (case get_prop v k of Some (JStr s) \<Rightarrow> Some s | _ \<Rightarrow> None)"

definition bool_prop :: "json \<Rightarrow> string \<Rightarrow> bool option" where
  "bool_prop v k = (case get_prop v k of Some (JBool b) \<Rightarrow> Some b | _ \<Rightarrow> None)"

definition strs_prop :: "json \<Rightarrow> string \<Rightarrow> string list option" where
  "strs_prop v k = (case get_prop v k of Some (JArr xs) \<Rightarrow> strings_of xs | _ \<Rightarrow> None)"

definition asDiscoveryState :: "json \<Rightarrow> DiscoveryState option" where
  "asDiscoveryState v =
     Option.bind (num_prop v ''version'') (\<lambda>ve.
     Option.bind (strs_prop v ''discoveries'') (\<lambda>di.
     Option.bind (strs_prop v ''constellations'') (\<lambda>co.
     Option.bind (strs_prop v ''gamesCompleted'') (\<lambda>ga.
     Option.bind (strs_prop v ''terminalCommands'') (\<lambda>te.
     Option.bind (num_prop v ''visitCount'') (\<lambda>vi.
     Option.bind (str_prop v ''firstVisitDate'') (\<lambda>fi.
     Option.bind (str_prop v ''lastVisitDate'') (\<lambda>la.
     Option.bind (num_prop v ''sessionStart'') (\<lambda>se.
     Option.bind (num_prop v ''loopCount'') (\<lambda>lo.
     Option.bind (bool_prop v ''audioEnabled'') (\<lambda>au.
     Option.bind (num_prop v ''totalClickedStars'') (\<lambda>tc.
       Some \<lparr>version = ve, discoveries = di, constellations = co, gamesCompleted = ga,
             terminalCommands = te, visitCount = vi, firstVisitDate = fi,
             lastVisitDate = la, sessionStart = se, loopCount = lo, audioEnabled = au,
             totalClickedStars = tc\<rparr>))))))))))))"

subsection \<open>Migration and loading\<close>

text \<open>
  \<^verbatim>\<open>!raw.version\<close>: \<^verbatim>\<open>undefined\<close>, \<^verbatim>\<open>null\<close>, \<^verbatim>\<open>false\<close>, \<^verbatim>\<open>0\<close> and the empty
  string are falsy, every array and object is truthy.
\<close>

definition truthy :: "json option \<Rightarrow> bool" where
  "truthy v =
     (case v of
        None \<Rightarrow> False
      | Some JNull \<Rightarrow> False
      | Some (JBool b) \<Rightarrow> b
      | Some (JNum n) \<Rightarrow> n \<noteq> 0
      | Some (JStr s) \<Rightarrow> s \<noteq> []
      | Some (JArr xs) \<Rightarrow> True
      | Some (JObj kvs) \<Rightarrow> True)"

text \<open>
  \<^verbatim>\<open>(raw.version as number) < 1\<close>.  The cast is erased; JavaScript converts the operand
  to a number: \<^verbatim>\<open>undefined\<close> to \<^verbatim>\<open>NaN\<close> (every comparison false), \<^verbatim>\<open>null\<close> to 0,
  \<^verbatim>\<open>true\<close> to 1 and \<^verbatim>\<open>false\<close> to 0.  A string, an array or an object is converted by
  the engine's string-to-number parser; that conversion is not modelled, its verdict is the
  parameter \<open>lt1\<close>.
\<close>

definition less_than_1 :: "(json \<Rightarrow> bool) \<Rightarrow> json option \<Rightarrow> bool" where
  "less_than_1 lt1 v =
     (case v of
        None \<Rightarrow> False
      | Some JNull \<Rightarrow> True
      | Some (JBool b) \<Rightarrow> \<not> b
      | Some (JNum n) \<Rightarrow> n < 1
      | Some (JStr s) \<Rightarrow> lt1 (JStr s)
      | Some (JArr xs) \<Rightarrow> lt1 (JArr xs)
      | Some (JObj kvs) \<Rightarrow> lt1 (JObj kvs))"

text \<open>
  \<^verbatim>\<open>migrate\<close>.  The result is the run-time object, whatever its declared type says;
  \<open>None\<close> is the \<^verbatim>\<open>TypeError\<close> of reading \<^verbatim>\<open>raw.version\<close> on \<^verbatim>\<open>null\<close>.
  \<^verbatim>\<open>Array.isArray\<close> holds of arrays only, \<^verbatim>\<open>typeof\<close> is \<^verbatim>\<open>'number'\<close> on numbers and
  \<^verbatim>\<open>'string'\<close> on strings only.
\<close>

definition migrate :: "(json \<Rightarrow> bool) \<Rightarrow> clock \<Rightarrow> json \<Rightarrow> json option" where
  "migrate lt1 c raw =
     (let state = properties (createDefaultState c) in
      if raw = JNull then None
      else
        let state =
          (if \<not> truthy (get_prop raw ''version'') \<or> less_than_1 lt1 (get_prop raw ''version'') then
             let state = (case get_prop raw ''discoveries'' of
                            Some (JArr xs) \<Rightarrow> AList.update ''discoveries'' (JArr xs) state
                          | _ \<Rightarrow> state);
                 state = (case get_prop raw ''visitCount'' of
                            Some (JNum n) \<Rightarrow> AList.update ''visitCount'' (JNum n) state
                          | _ \<Rightarrow> state);
                 state = (case get_prop raw ''firstVisitDate'' of
                            Some (JStr s) \<Rightarrow> AList.update ''firstVisitDate'' (JStr s) state
                          | _ \<Rightarrow> state)
             in state
           else state)
        in Some (JObj (AList.update ''version'' (JNum SCHEMA_VERSION) state)))"

text \<open>
  What \<^verbatim>\<open>localStorage\<close> holds under \<open>STORAGE_KEY\<close>: no item (\<^verbatim>\<open>getItem\<close> returns
  \<^verbatim>\<open>null\<close>), the empty text, a text that \<^verbatim>\<open>JSON.parse\<close> rejects, or a text that parses to
  a value.  Either access may throw (storage disabled, quota exceeded).
\<close>

datatype stored_text = Empty | Unparsable | Parses json

record storage =
  item :: "stored_text option"
  getItem_throws :: bool
  setItem_throws :: bool

text \<open>
  \<^verbatim>\<open>load\<close>.  Every exception inside the \<^verbatim>\<open>try\<close> block ends in the defaults: of
  \<^verbatim>\<open>getItem\<close>, of \<^verbatim>\<open>JSON.parse\<close>, and of reading \<^verbatim>\<open>parsed.version\<close> when the text is
  \<^verbatim>\<open>null\<close>.  A record of the current version is returned as it was parsed, unchecked.
\<close>

definition load :: "(json \<Rightarrow> bool) \<Rightarrow> clock \<Rightarrow> storage \<Rightarrow> json" where
  "load lt1 c st =
     (if getItem_throws st then toJson (createDefaultState c)
      else case item st of
        None \<Rightarrow> toJson (createDefaultState c)
      | Some Empty \<Rightarrow> toJson (createDefaultState c)
      | Some Unparsable \<Rightarrow> toJson (createDefaultState c)
      | Some (Parses parsed) \<Rightarrow>
          if parsed = JNull then toJson (createDefaultState c)
          else if get_prop parsed ''version'' = Some (JNum SCHEMA_VERSION) then parsed
          else (case migrate lt1 c parsed of
                  None \<Rightarrow> toJson (createDefaultState c)
                | Some s \<Rightarrow> s))"

subsection \<open>The store and the event bus\<close>

text \<open>
  The topics of \<^verbatim>\<open>ObservatoryEventMap\<close> with their payloads.  \<^verbatim>\<open>emit\<close> dispatches
  synchronously on \<^verbatim>\<open>window\<close>; no listener of the program writes to the store, so a
  dispatch is recorded in a log and changes nothing else.
\<close>

datatype event =
  Ev_discovery string string string
| Ev_constellation_complete string "string list"
| Ev_game_complete string rat
| Ev_terminal_command string string
| Ev_visit rat bool
| Ev_time_change bool rat
| Ev_loop_reset rat
| Ev_audio_toggle bool
| Ev_state_change "string list" nat

text \<open>
  The module's variable \<^verbatim>\<open>state\<close>, the storage, and the events dispatched so far.
  \<^verbatim>\<open>save\<close> writes the serialised state under the key unless \<^verbatim>\<open>setItem\<close> throws, which
  it swallows.  The text it writes parses back to \<open>toJson\<close> of the state.
\<close>

record world =
  state :: DiscoveryState
  localStorage :: storage
  dispatched :: "event list"

definition emit :: "event \<Rightarrow> world \<Rightarrow> world" where
  "emit e w = w\<lparr>dispatched := dispatched w @ [e]\<rparr>"

definition save :: "world \<Rightarrow> world" where
  "save w =
     (if setItem_throws (localStorage w) then w
      else w\<lparr>localStorage := (localStorage w)\<lparr>item := Some (Parses (toJson (state w)))\<rparr>\<rparr>)"

text \<open>
  \<^verbatim>\<open>init\<close>.  From \<^verbatim>\<open>state.visitCount += 1\<close> on the code relies on the declared type of
  what \<^verbatim>\<open>load\<close> returned; when that value is not a \<^verbatim>\<open>DiscoveryState\<close> the typed model
  stops with it.  \<open>c\<close> is the clock as \<^verbatim>\<open>load\<close> reads it, \<open>c'\<close> as \<^verbatim>\<open>init\<close> reads it
  afterwards.
\<close>

datatype fault = NotADiscoveryState json

definition init :: "(json \<Rightarrow> bool) \<Rightarrow> clock \<Rightarrow> clock \<Rightarrow> world \<Rightarrow> fault + world" where
  "init lt1 c c' w =
     (let loaded = load lt1 c (localStorage w) in
      case asDiscoveryState loaded of
        None \<Rightarrow> Inl (NotADiscoveryState loaded)
      | Some s \<Rightarrow>
          let w = w\<lparr>state := s\<rparr>;
              w = w\<lparr>state := (state w)\<lparr>visitCount := visitCount (state w) + 1\<rparr>\<rparr>;
              w = w\<lparr>state := (state w)\<lparr>lastVisitDate := toISOString c'\<rparr>\<rparr>;
              w = w\<lparr>state := (state w)\<lparr>sessionStart := now c'\<rparr>\<rparr>;
              w = save w;
              w = emit (Ev_visit (visitCount (state w)) (visitCount (state w) = 1)) w
          in Inr w)"

definition getState :: "world \<Rightarrow> DiscoveryState" where
  "getState w = state w"

definition addDiscovery :: "string \<Rightarrow> string \<Rightarrow> string \<Rightarrow> world \<Rightarrow> bool \<times> world" where
  "addDiscovery i cat lab w =
     (if array_includes (discoveries (state w)) i then (False, w)
      else
        let w = w\<lparr>state := (state w)\<lparr>discoveries := discoveries (state w) @ [i]\<rparr>\<rparr>;
            w = save w;
            w = emit (Ev_discovery i cat lab) w;
            w = emit (Ev_state_change (discoveries (state w))
                        (length (discoveries (state w)))) w
        in (True, w))"

definition hasDiscovery :: "string \<Rightarrow> world \<Rightarrow> bool" where
  "hasDiscovery i w = array_includes (discoveries (state w)) i"

definition discoveryCount :: "world \<Rightarrow> nat" where
  "discoveryCount w = length (discoveries (state w))"

definition addConstellation :: "string \<Rightarrow> string list \<Rightarrow> world \<Rightarrow> bool \<times> world" where
  "addConstellation name stars w =
     (if array_includes (constellations (state w)) name then (False, w)
      else
        let w = w\<lparr>state := (state w)\<lparr>constellations := constellations (state w) @ [name]\<rparr>\<rparr>;
            w = save w;
            w = emit (Ev_constellation_complete name stars) w;
            w = snd (addDiscovery (''constellation:'' @ name) ''constellation''
                       (''Formed '' @ name) w)
        in (True, w))"

definition addGameComplete :: "string \<Rightarrow> rat \<Rightarrow> world \<Rightarrow> bool \<times> world" where
  "addGameComplete gameId score w =
     (if array_includes (gamesCompleted (state w)) gameId then (False, w)
      else
        let w = w\<lparr>state := (state w)\<lparr>gamesCompleted := gamesCompleted (state w) @ [gameId]\<rparr>\<rparr>;
            w = save w;
            w = emit (Ev_game_complete gameId score) w;
            w = snd (addDiscovery (''game:'' @ gameId) ''game'' (''Completed '' @ gameId) w)
        in (True, w))"

definition addTerminalCommand :: "string \<Rightarrow> string \<Rightarrow> world \<Rightarrow> world" where
  "addTerminalCommand command output w =
     (let w =
        (if \<not> array_includes (terminalCommands (state w)) command then
           let w = w\<lparr>state := (state w)\<lparr>terminalCommands :=
                                           terminalCommands (state w) @ [command]\<rparr>\<rparr>;
               w = save w
           in if length (terminalCommands (state w)) = 1
              then snd (addDiscovery ''terminal:first-command'' ''terminal''
                          ''First terminal command'' w)
              else w
         else w)
      in emit (Ev_terminal_command command output) w)"

definition clickStar :: "world \<Rightarrow> rat \<times> world" where
  "clickStar w =
     (let w = w\<lparr>state := (state w)\<lparr>totalClickedStars := totalClickedStars (state w) + 1\<rparr>\<rparr>;
          w = save w;
          w = (if totalClickedStars (state w) = 1
               then snd (addDiscovery ''star:first-click'' ''star'' ''Clicked first star'' w)
               else w)
      in (totalClickedStars (state w), w))"

definition toggleAudio :: "world \<Rightarrow> bool \<times> world" where
  "toggleAudio w =
     (let w = w\<lparr>state := (state w)\<lparr>audioEnabled := \<not> audioEnabled (state w)\<rparr>\<rparr>;
          w = save w;
          w = emit (Ev_audio_toggle (audioEnabled (state w))) w
      in (audioEnabled (state w), w))"

definition incrementLoop :: "world \<Rightarrow> rat \<times> world" where
  "incrementLoop w =
     (let w = w\<lparr>state := (state w)\<lparr>loopCount := loopCount (state w) + 1\<rparr>\<rparr>;
          w = save w;
          w = emit (Ev_loop_reset (loopCount (state w))) w;
          w = (if loopCount (state w) = 1
               then snd (addDiscovery ''loop:first-reset'' ''loop'' ''First time loop'' w)
               else w)
      in (loopCount (state w), w))"

definition canAccessDeepGame :: "world \<Rightarrow> bool" where
  "canAccessDeepGame w \<longleftrightarrow> length (discoveries (state w)) \<ge> 10"

definition resetState :: "clock \<Rightarrow> world \<Rightarrow> world" where
  "resetState c w = save (w\<lparr>state := createDefaultState c\<rparr>)"

subsection \<open>The components' calls\<close>

text \<open>
  \<^verbatim>\<open>checkNight\<close> of the flashlight component: \<open>active\<close> is the component's flag,
  \<open>isNightTime\<close> the reading of the clock; the new flag is returned with the store.
\<close>

definition checkNight :: "bool \<Rightarrow> bool \<Rightarrow> world \<Rightarrow> bool \<times> world" where
  "checkNight active isNightTime w =
     (let wasActive = active;
          active = isNightTime
      in if active \<and> \<not> wasActive
         then (active, snd (addDiscovery ''night:flashlight'' ''time''
                              ''Night vision activated'' w))
         else (active, w))"

text \<open>\<^verbatim>\<open>openTerminal\<close> of the terminal component, as far as the store is concerned.\<close>

definition openTerminal :: "world \<Rightarrow> world" where
  "openTerminal w =
     snd (addDiscovery ''terminal:opened'' ''terminal'' ''Unlocked the terminal'' w)"

subsection \<open>Sequences of operations\<close>

text \<open>
  One call of a mutating operation of the store with its arguments, and a session as the
  list of the calls made after \<^verbatim>\<open>init\<close>, in order.
\<close>

datatype operation =
  RecordDiscovery string string string
| RecordConstellation string "string list"
| RecordGameComplete string rat
| RecordTerminalCommand string string
| IncrementStarClicks
| ToggleAudio
| IncrementLoop

fun apply_operation :: "operation \<Rightarrow> world \<Rightarrow> world" where
  "apply_operation (RecordDiscovery i cat lab) w = snd (addDiscovery i cat lab w)"
| "apply_operation (RecordConstellation name stars) w = snd (addConstellation name stars w)"
| "apply_operation (RecordGameComplete gameId score) w = snd (addGameComplete gameId score w)"
| "apply_operation (RecordTerminalCommand command output) w =
     addTerminalCommand command output w"
| "apply_operation IncrementStarClicks w = snd (clickStar w)"
| "apply_operation ToggleAudio w = snd (toggleAudio w)"
| "apply_operation IncrementLoop w = snd (incrementLoop w)"

fun run :: "operation list \<Rightarrow> world \<Rightarrow> world" where
  "run [] w = w"
| "run (op # ops) w = run ops (apply_operation op w)"

text \<open>The discovery id that a call hands to \<^verbatim>\<open>addDiscovery\<close>, directly or by cascade.\<close>

fun recorded_ids :: "operation \<Rightarrow> string list" where
  "recorded_ids (RecordDiscovery i cat lab) = [i]"
| "recorded_ids (RecordConstellation name stars) = [''constellation:'' @ name]"
| "recorded_ids (RecordGameComplete gameId score) = [''game:'' @ gameId]"
| "recorded_ids (RecordTerminalCommand command output) = [''terminal:first-command'']"
| "recorded_ids IncrementStarClicks = [''star:first-click'']"
| "recorded_ids ToggleAudio = []"
| "recorded_ids IncrementLoop = [''loop:first-reset'']"

subsection \<open>Vocabulary for the migration properties\<close>

text \<open>
  The value a field has after one of \<^verbatim>\<open>migrate\<close>'s guarded copies: the record's value
  when it passes the guard (\<^verbatim>\<open>Array.isArray\<close>, \<^verbatim>\<open>typeof\<close>), the default \<open>d\<close> otherwise.
\<close>

definition copied_array :: "json option \<Rightarrow> json list \<Rightarrow> json list" where
  "copied_array x d = (case x of Some (JArr xs) \<Rightarrow> xs | _ \<Rightarrow> d)"

definition copied_number :: "json option \<Rightarrow> rat \<Rightarrow> rat" where
  "copied_number x d = (case x of Some (JNum n) \<Rightarrow> n | _ \<Rightarrow> d)"

definition copied_string :: "json option \<Rightarrow> string \<Rightarrow> string" where
  "copied_string x d = (case x of Some (JStr s) \<Rightarrow> s | _ \<Rightarrow> d)"

text \<open>
  An engine verdict for the inputs that hold no string, array or object as version.
\<close>

definition lt1_never :: "json \<Rightarrow> bool" where
  "lt1_never v = False"

text \<open>
  Three persisted records: one of version 0 with a mistyped \<^verbatim>\<open>firstVisitDate\<close>, one of an
  unknown later version, one of version 0 whose discoveries are numbers; and the storage
  that holds a record.
\<close>

definition version0Record :: json where
  "version0Record =
     JObj [(''discoveries'', JArr [JStr ''a'']), (''visitCount'', JNum 3),
           (''firstVisitDate'', JNum 5)]"

definition version2Record :: json where
  "version2Record = JObj [(''version'', JNum 2), (''discoveries'', JArr [JStr ''a''])]"

definition numbersRecord :: json where
  "numbersRecord = JObj [(''discoveries'', JArr [JNum 1])]"

definition holding :: "json \<Rightarrow> storage" where
  "holding v = \<lparr>item = Some (Parses v), getItem_throws = False, setItem_throws = False\<rparr>"

subsection \<open>A first session\<close>

text \<open>
  The store as the module leaves it when it is imported at the epoch with empty storage,
  and the store that \<^verbatim>\<open>init\<close> makes of it on the first visit.
\<close>

definition epoch :: clock where
  "epoch = \<lparr>toISOString = ''1970-01-01T00:00:00.000Z'', now = 0\<rparr>"

definition freshWorld :: world where
  "freshWorld =
     \<lparr>state = createDefaultState epoch,
      localStorage = \<lparr>item = None, getItem_throws = False, setItem_throws = False\<rparr>,
      dispatched = []\<rparr>"

definition firstVisit :: world where
  "firstVisit =
     \<lparr>state = (createDefaultState epoch)\<lparr>visitCount := 1\<rparr>,
      localStorage =
        \<lparr>item = Some (Parses (toJson ((createDefaultState epoch)\<lparr>visitCount := 1\<rparr>))),
         getItem_throws = False, setItem_throws = False\<rparr>,
      dispatched = [Ev_visit 1 True]\<rparr>"

section \<open>Properties of the resolver\<close>

lemma includes_iff: "array_includes xs x \<longleftrightarrow> x \<in> set xs"
  by (simp add: array_includes_def)

lemma getNode_abc:
  "getNode abcGraph ''A'' = Some (testNode ''A'' [])"
  "getNode abcGraph ''B'' = Some (testNode ''B'' [''A''])"
  "getNode abcGraph ''C'' = Some (testNode ''C'' [''A'', ''B''])"
  by (simp_all add: getNode_def abcGraph_def testNode_def)

lemma find_first_match:
  "x \<in> f ` set xs \<Longrightarrow> \<exists>n. find (\<lambda>n. f n = x) xs = Some n \<and> n \<in> set xs \<and> f n = x"
  by (induction xs) auto

lemma getNode_Some:
  "nodeId \<in> node_id ` set (nodes g) \<Longrightarrow>
   \<exists>node. getNode g nodeId = Some node \<and> node \<in> set (nodes g) \<and> node_id node = nodeId"
  unfolding getNode_def by (rule find_first_match)

lemma isUnlocked_abc:
  "isUnlocked abcGraph ''B'' [''A'']"
  "\<not> isUnlocked abcGraph ''C'' [''A'']"
  "isUnlocked abcGraph ''C'' [''A'', ''B'']"
  by (simp_all add: isUnlocked_def getNode_abc testNode_def array_includes_def)

text \<open>
  Claim C2.  For a node id of the graph, \<open>isUnlocked\<close> looks up the (first) node of that id
  and is true exactly when every id of its \<open>requires\<close> list is among the discoveries; a
  node that requires nothing is unlocked for every discovery set.  On the test graph
  A, B (requires A), C (requires A and B): with A discovered B is unlocked and C is not,
  with A and B discovered C is unlocked.
\<close>

theorem isUnlocked_all_required:
  "(nodeId \<in> node_id ` set (nodes g) \<longrightarrow>
      (\<exists>node \<in> set (nodes g). node_id node = nodeId \<and> getNode g nodeId = Some node
         \<and> (isUnlocked g nodeId ds \<longleftrightarrow>
              (\<forall>req \<in> set (requires node). req \<in> set ds))
         \<and> (requires node = [] \<longrightarrow> isUnlocked g nodeId ds)))
   \<and> isUnlocked abcGraph ''B'' [''A'']
   \<and> \<not> isUnlocked abcGraph ''C'' [''A'']
   \<and> isUnlocked abcGraph ''C'' [''A'', ''B'']"
proof -
  have "\<exists>node \<in> set (nodes g). node_id node = nodeId \<and> getNode g nodeId = Some node
         \<and> (isUnlocked g nodeId ds \<longleftrightarrow>
              (\<forall>req \<in> set (requires node). req \<in> set ds))
         \<and> (requires node = [] \<longrightarrow> isUnlocked g nodeId ds)"
    if "nodeId \<in> node_id ` set (nodes g)"
  proof -
    from getNode_Some[OF that] obtain node where
      n: "getNode g nodeId = Some node" "node \<in> set (nodes g)" "node_id node = nodeId"
      by blast
    then show ?thesis
      by (auto simp: isUnlocked_def list_all_iff array_includes_def)
  qed
  with isUnlocked_abc show ?thesis by blast
qed

text \<open>
  On the program's graph: \<open>meta:deep-game\<close> requires three ds and stays locked
  while \<open>terminal:first-command\<close> is missing.
\<close>

theorem isUnlocked_all_required_witness:
  "''meta:deep-game'' \<in> node_id ` set (nodes graphData)
   \<and> (\<exists>node \<in> set (nodes graphData). node_id node = ''meta:deep-game''
         \<and> getNode graphData ''meta:deep-game'' = Some node
         \<and> requires node = [''star:first-click'', ''terminal:first-command'', ''game:star-catcher'']
         \<and> \<not> isUnlocked graphData ''meta:deep-game'' [''star:first-click'', ''game:star-catcher''])"
proof -
  have h: "''meta:deep-game'' \<in> node_id ` set (nodes graphData)"
    by (simp add: graphData_def)
  have r: "getNode graphData ''meta:deep-game'' = Some node \<Longrightarrow>
           requires node = [''star:first-click'', ''terminal:first-command'', ''game:star-catcher'']"
    for node
    by (auto simp add: getNode_def graphData_def)
  from isUnlocked_all_required
    [of "''meta:deep-game''" graphData "[''star:first-click'', ''game:star-catcher'']"] h
  obtain node where n: "node \<in> set (nodes graphData)" "node_id node = ''meta:deep-game''"
     "getNode graphData ''meta:deep-game'' = Some node"
     "isUnlocked graphData ''meta:deep-game'' [''star:first-click'', ''game:star-catcher''] \<longleftrightarrow>
        (\<forall>req \<in> set (requires node). req \<in> set [''star:first-click'', ''game:star-catcher''])"
    by blast
  from n(4) r[OF n(3)]
  have "\<not> isUnlocked graphData ''meta:deep-game'' [''star:first-click'', ''game:star-catcher'']"
    by simp
  with h n r[OF n(3)] show ?thesis by blast
qed

lemma getHintableNodes_filter:
  "getHintableNodes g ds =
     filter (\<lambda>n. node_id n \<notin> set ds
                 \<and> (requires n = [] \<or> (\<exists>req \<in> set (requires n). req \<in> set ds)))
            (nodes g)"
  unfolding getHintableNodes_def
  by (rule filter_cong) (auto simp: array_includes_def list_ex_iff)

lemma getHintableNodes_abc:
  "getHintableNodes abcGraph [] = [testNode ''A'' []]"
  "getHintableNodes abcGraph [''A''] = [testNode ''B'' [''A''], testNode ''C'' [''A'', ''B'']]"
  by (simp_all add: getHintableNodes_def abcGraph_def testNode_def array_includes_def)

text \<open>
  Claim C3.  \<open>getHintableNodes\<close> returns, in graph order, exactly the nodes whose id is
  not discovered and whose \<open>requires\<close> list is empty or has a discovered element.  No
  returned node is discovered.  The condition is weaker than the unlock condition: an
  undiscovered node with all requirements met is hintable, and C of the test graph is
  hintable with only A discovered although it is not unlocked.  With nothing discovered
  only A is hintable; with A discovered B and C are.
\<close>

theorem getHintableNodes_or_semantics:
  "getHintableNodes g ds =
     filter (\<lambda>n. node_id n \<notin> set ds
                 \<and> (requires n = [] \<or> (\<exists>req \<in> set (requires n). req \<in> set ds)))
            (nodes g)
   \<and> (\<forall>n \<in> set (getHintableNodes g ds). node_id n \<notin> set ds)
   \<and> (\<forall>n \<in> set (nodes g).
        node_id n \<notin> set ds \<and> (\<forall>req \<in> set (requires n). req \<in> set ds)
          \<longrightarrow> n \<in> set (getHintableNodes g ds))
   \<and> getHintableNodes abcGraph [] = [testNode ''A'' []]
   \<and> getHintableNodes abcGraph [''A''] = [testNode ''B'' [''A''], testNode ''C'' [''A'', ''B'']]
   \<and> \<not> isUnlocked abcGraph ''C'' [''A'']"
proof -
  have a: "\<forall>n \<in> set (getHintableNodes g ds). node_id n \<notin> set ds"
    by (simp add: getHintableNodes_filter)
  have b: "\<forall>n \<in> set (nodes g).
        node_id n \<notin> set ds \<and> (\<forall>req \<in> set (requires n). req \<in> set ds)
          \<longrightarrow> n \<in> set (getHintableNodes g ds)"
  proof (intro ballI impI)
    fix n assume n: "n \<in> set (nodes g)"
      and h: "node_id n \<notin> set ds \<and> (\<forall>req \<in> set (requires n). req \<in> set ds)"
    show "n \<in> set (getHintableNodes g ds)"
    proof (cases "requires n")
      case Nil
      with n h show ?thesis by (simp add: getHintableNodes_filter)
    next
      case (Cons r rs)
      with h have "r \<in> set (requires n)" "r \<in> set ds" by simp_all
      with n h show ?thesis by (auto simp add: getHintableNodes_filter)
    qed
  qed
  from a b getHintableNodes_filter[of g ds] getHintableNodes_abc isUnlocked_abc(2)
  show ?thesis by blast
qed

text \<open>
  On the program's graph with the first star clicked (and one id that is no graph node):
  every other node but \<open>game:deep-complete\<close> becomes hintable.
\<close>

theorem getHintableNodes_or_semantics_witness:
  "map node_id (getHintableNodes graphData [''star:first-click'', ''physics:first-scatter'']) =
     [''star:pattern-hint'', ''constellation:orion'',
      ''constellation:cassiopeia'', ''constellation:lyra'',
      ''game:star-catcher'', ''game:signal-decoder'', ''game:gravity-hop'',
      ''game:nebula-painter'', ''terminal:first-command'', ''loop:first-reset'',
      ''visit:returning'', ''meta:deep-game'']
   \<and> set (map node_id
          (getHintableNodes graphData [''star:first-click'', ''physics:first-scatter'']))
       \<inter> set [''star:first-click'', ''physics:first-scatter''] = {}
   \<and> testNode ''B'' [''A''] \<in> set (nodes abcGraph)
   \<and> isUnlocked abcGraph ''B'' [''A'']
   \<and> testNode ''B'' [''A''] \<in> set (getHintableNodes abcGraph [''A''])"
proof -
  have b: "testNode ''B'' [''A''] \<in> set (nodes abcGraph)"
    "node_id (testNode ''B'' [''A'']) \<notin> set [''A'']
     \<and> (\<forall>req \<in> set (requires (testNode ''B'' [''A''])). req \<in> set [''A''])"
    by (simp_all add: abcGraph_def testNode_def)
  from getHintableNodes_or_semantics[of abcGraph "[''A'']"] b
  have 3: "testNode ''B'' [''A''] \<in> set (getHintableNodes abcGraph [''A''])"
    by blast
  note t = getHintableNodes_or_semantics
             [of graphData "[''star:first-click'', ''physics:first-scatter'']"]
  from t have
    "\<forall>n \<in> set (getHintableNodes graphData [''star:first-click'', ''physics:first-scatter'']).
         node_id n \<notin> set [''star:first-click'', ''physics:first-scatter'']" by blast
  then have 2:
    "set (map node_id
          (getHintableNodes graphData [''star:first-click'', ''physics:first-scatter'']))
       \<inter> set [''star:first-click'', ''physics:first-scatter''] = {}"
    by auto
  from t have
    "getHintableNodes graphData [''star:first-click'', ''physics:first-scatter''] =
     filter (\<lambda>n. node_id n \<notin> set [''star:first-click'', ''physics:first-scatter'']
                 \<and> (requires n = []
                    \<or> (\<exists>req \<in> set (requires n).
                          req \<in> set [''star:first-click'', ''physics:first-scatter''])))
            (nodes graphData)" by blast
  then have 1:
    "map node_id (getHintableNodes graphData [''star:first-click'', ''physics:first-scatter'']) =
     [''star:pattern-hint'', ''constellation:orion'',
      ''constellation:cassiopeia'', ''constellation:lyra'',
      ''game:star-catcher'', ''game:signal-decoder'', ''game:gravity-hop'',
      ''game:nebula-painter'', ''terminal:first-command'', ''loop:first-reset'',
      ''visit:returning'', ''meta:deep-game'']"
    by (simp add: graphData_def)
  from 1 2 3 b(1) isUnlocked_abc(1) show ?thesis by blast
qed

lemma Math_round_zero: "Math_round 0 = 0"
  unfolding Math_round_def by (simp add: floor_eq_iff)

lemma Math_round_div:
  assumes "0 < d"
  shows "Math_round (of_nat n / of_nat d * 100) = (200 * int n + int d) div (2 * int d)"
proof -
  have "of_nat n / of_nat d * 100 + 1 / 2
          = (of_int (200 * int n + int d) :: rat) / of_int (2 * int d)"
    using assms by (simp add: field_simps)
  then show ?thesis
    unfolding Math_round_def by (simp only: floor_divide_of_int_eq)
qed

lemma getProgress_graphData:
  "getProgress graphData ds = Some ((100 * int (length ds) + 7) div 14)"
proof -
  have l: "length (nodes graphData) = 14" by (simp add: graphData_def)
  have "(200 * int (length ds) + int 14) div (2 * int 14) = (100 * int (length ds) + 7) div 14"
    by simp
  with Math_round_div[of 14 "length ds"] l show ?thesis
    by (simp add: getProgress_def)
qed

text \<open>
  The specification computes the progress over the discoveries that are graph nodes.  The
  code counts every element of the array: one discovery that is no graph node gives 7,
  where the specification's formula gives 0.
\<close>

theorem getProgress_intersection_counterexample:
  "getProgress graphData [''physics:first-scatter'']
     \<noteq> Some (getProgress_spec graphData [''physics:first-scatter''])"
proof -
  have "getProgress_spec graphData [''physics:first-scatter''] = 0"
    by (simp add: getProgress_spec_def graphData_def Math_round_zero)
  moreover have "getProgress graphData [''physics:first-scatter''] = Some 7"
    by (simp add: getProgress_graphData)
  ultimately show ?thesis by simp
qed

lemma getProgress_spec_eq:
  assumes "distinct ds" "set ds \<subseteq> set (map node_id (nodes g))"
    "distinct (map node_id (nodes g))" "nodes g \<noteq> []"
  shows "getProgress g ds = Some (getProgress_spec g ds)"
proof -
  have 1: "card (set ds \<inter> set (map node_id (nodes g))) = length ds"
    using assms(1,2) by (simp add: Int_absorb2 distinct_card)
  have 2: "card (set (map node_id (nodes g))) = length (nodes g)"
    using distinct_card[OF assms(3)] by simp
  show ?thesis using assms(4)
    unfolding getProgress_def getProgress_spec_def 1 2 by (simp add: mult.commute)
qed

text \<open>
  Claim C4, as amended.  \<open>getProgress\<close> is the rounded percentage of the length of the
  discoveries array in the number of graph nodes, whatever the ids are (so it can exceed
  100); on the program's 14 nodes that is \<open>(100 n + 7) div 14\<close>.  It agrees with the
  specification's formula when the discoveries are distinct ids of graph nodes and the
  node ids are distinct.  Three discoveries on a graph of twelve nodes give 25.
\<close>

theorem getProgress_counts_length:
  "(nodes g \<noteq> [] \<longrightarrow>
      getProgress g ds =
        Some (Math_round (100 * of_nat (length ds) / of_nat (length (nodes g)))))
   \<and> getProgress graphData ds = Some ((100 * int (length ds) + 7) div 14)
   \<and> (distinct ds \<and> set ds \<subseteq> set (map node_id (nodes g))
        \<and> distinct (map node_id (nodes g)) \<and> nodes g \<noteq> []
      \<longrightarrow> getProgress g ds = Some (getProgress_spec g ds))
   \<and> (length (nodes g) = 12 \<and> length ds = 3 \<longrightarrow> getProgress g ds = Some 25)"
proof -
  have a: "nodes g \<noteq> [] \<longrightarrow>
      getProgress g ds =
        Some (Math_round (100 * of_nat (length ds) / of_nat (length (nodes g))))"
    by (simp add: getProgress_def mult.commute)
  have d: "length (nodes g) = 12 \<and> length ds = 3 \<longrightarrow> getProgress g ds = Some 25"
    using Math_round_div[of 12 3] by (auto simp add: getProgress_def)
  from a d getProgress_graphData getProgress_spec_eq show ?thesis by blast
qed

text \<open>Three graph nodes discovered: 21 percent of 14 nodes, 25 percent of 12.\<close>

theorem getProgress_counts_length_witness:
  "getProgress graphData [''star:first-click'', ''loop:first-reset'', ''visit:returning''] = Some 21
   \<and> getProgress_spec graphData [''star:first-click'', ''loop:first-reset'', ''visit:returning''] = 21
   \<and> length (nodes twelveNodes) = 12
   \<and> getProgress twelveNodes [''star:first-click'', ''loop:first-reset'', ''visit:returning''] = Some 25"
proof -
  let ?ds = "[''star:first-click'', ''loop:first-reset'', ''visit:returning'']"
  have h: "distinct ?ds \<and> set ?ds \<subseteq> set (map node_id (nodes graphData))
        \<and> distinct (map node_id (nodes graphData)) \<and> nodes graphData \<noteq> []"
    by (simp add: graphData_def)
  have l: "length (nodes twelveNodes) = 12 \<and> length ?ds = 3"
    by (simp add: twelveNodes_def graphData_def)
  note t = getProgress_counts_length[of graphData ?ds]
  from t have "getProgress graphData ?ds = Some ((100 * int (length ?ds) + 7) div 14)"
    by blast
  then have 1: "getProgress graphData ?ds = Some 21" by simp
  from t h have "getProgress graphData ?ds = Some (getProgress_spec graphData ?ds)"
    by blast
  with 1 have 3: "getProgress_spec graphData ?ds = 21" by simp
  from getProgress_counts_length[of twelveNodes ?ds] l
  have 2: "getProgress twelveNodes ?ds = Some 25" by blast
  from 1 2 3 l show ?thesis by blast
qed

section \<open>Properties of the store\<close>

lemma strings_of_map_JStr [simp]: "strings_of (map JStr xs) = Some xs"
  by (induction xs) auto

lemma asDiscoveryState_toJson [simp]: "asDiscoveryState (toJson s) = Some s"
  by (simp add: asDiscoveryState_def toJson_def properties_def num_prop_def str_prop_def
      bool_prop_def strs_prop_def get_prop_def)

lemma init_freshWorld: "init lt1 epoch epoch freshWorld = Inr firstVisit"
  by (simp add: init_def load_def freshWorld_def firstVisit_def save_def emit_def
      createDefaultState_def epoch_def Let_def)

text \<open>
  Claim C1.  \<open>addDiscovery\<close> (the specification's \<open>recordDiscovery\<close>) on an id that is
  already among the discoveries returns \<open>false\<close> and leaves the whole store as it was:
  state, storage and dispatched events.  On a new id it returns \<open>true\<close> and appends the
  id.  Hence a second call with the same id, whatever category and label it carries,
  returns \<open>false\<close> and changes nothing after the first.
\<close>

theorem addDiscovery_idempotent:
  "(i \<in> set (discoveries (state w)) \<longrightarrow> addDiscovery i cat lab w = (False, w))
   \<and> (i \<notin> set (discoveries (state w)) \<longrightarrow>
        fst (addDiscovery i cat lab w)
        \<and> discoveries (state (snd (addDiscovery i cat lab w))) = discoveries (state w) @ [i])
   \<and> addDiscovery i cat' lab' (snd (addDiscovery i cat lab w))
        = (False, snd (addDiscovery i cat lab w))"
  by (simp add: addDiscovery_def array_includes_def save_def emit_def Let_def)

text \<open>The first star click of a first visit, recorded twice.\<close>

theorem addDiscovery_idempotent_witness:
  "''star:first-click'' \<notin> set (discoveries (state firstVisit))
   \<and> discoveries (state (snd (addDiscovery ''star:first-click'' ''star'' ''Clicked first star'' firstVisit)))
       = [''star:first-click'']
   \<and> ''star:first-click'' \<in> set (discoveries (state
        (snd (addDiscovery ''star:first-click'' ''star'' ''Clicked first star'' firstVisit))))
   \<and> addDiscovery ''star:first-click'' ''star'' ''Clicked first star''
        (snd (addDiscovery ''star:first-click'' ''star'' ''Clicked first star'' firstVisit))
       = (False, snd (addDiscovery ''star:first-click'' ''star'' ''Clicked first star'' firstVisit))"
proof -
  let ?w1 = "snd (addDiscovery ''star:first-click'' ''star'' ''Clicked first star'' firstVisit)"
  have h: "''star:first-click'' \<notin> set (discoveries (state firstVisit))"
    by (simp add: firstVisit_def createDefaultState_def)
  from addDiscovery_idempotent[of "''star:first-click''" firstVisit "''star''" "''Clicked first star''"] h
  have 1: "discoveries (state ?w1) = discoveries (state firstVisit) @ [''star:first-click'']"
    by blast
  then have 2: "discoveries (state ?w1) = [''star:first-click'']"
    by (simp add: firstVisit_def createDefaultState_def)
  then have 3: "''star:first-click'' \<in> set (discoveries (state ?w1))" by simp
  from addDiscovery_idempotent[of "''star:first-click''" ?w1 "''star''" "''Clicked first star''"] 3
  have "addDiscovery ''star:first-click'' ''star'' ''Clicked first star'' ?w1 = (False, ?w1)"
    by blast
  with h 2 3 show ?thesis by blast
qed

lemma addDiscovery_dispatched:
  "\<exists>es. dispatched (snd (addDiscovery i cat lab w)) = dispatched w @ es
        \<and> (\<forall>e \<in> set es. \<forall>c' o'. e \<noteq> Ev_terminal_command c' o')"
  by (simp add: addDiscovery_def array_includes_def save_def emit_def Let_def)

text \<open>
  Claim C10.  Every call of \<open>addTerminalCommand\<close> dispatches exactly one
  \<open>terminal-command\<close> event, carrying the command and the output, as its last event.
  For a command already recorded nothing else happens: the state and the storage are
  unchanged and no other event is dispatched.  The first command ever recorded
  (\<open>terminalCommands\<close> reaching length 1) is stored and cascades into
  \<open>addDiscovery\<close> of \<open>terminal:first-command\<close>, which, when new, is appended and announced
  before the \<open>terminal-command\<close> event.  A later new command is stored without a cascade.
\<close>

theorem addTerminalCommand_effects:
  "(\<exists>es. dispatched (addTerminalCommand c out w)
            = dispatched w @ es @ [Ev_terminal_command c out]
         \<and> (\<forall>e \<in> set es. \<forall>c' o'. e \<noteq> Ev_terminal_command c' o'))
   \<and> (c \<in> set (terminalCommands (state w)) \<longrightarrow>
        addTerminalCommand c out w
          = w\<lparr>dispatched := dispatched w @ [Ev_terminal_command c out]\<rparr>)
   \<and> (terminalCommands (state w) = [] \<longrightarrow>
        addTerminalCommand c out w
          = emit (Ev_terminal_command c out)
              (snd (addDiscovery ''terminal:first-command'' ''terminal''
                      ''First terminal command''
                      (save (w\<lparr>state := (state w)\<lparr>terminalCommands := [c]\<rparr>\<rparr>)))))
   \<and> (terminalCommands (state w) = []
        \<and> ''terminal:first-command'' \<notin> set (discoveries (state w)) \<longrightarrow>
        discoveries (state (addTerminalCommand c out w))
          = discoveries (state w) @ [''terminal:first-command'']
        \<and> dispatched (addTerminalCommand c out w)
          = dispatched w @
            [Ev_discovery ''terminal:first-command'' ''terminal'' ''First terminal command'',
             Ev_state_change (discoveries (state w) @ [''terminal:first-command''])
               (Suc (length (discoveries (state w)))),
             Ev_terminal_command c out])
   \<and> (c \<notin> set (terminalCommands (state w)) \<and> terminalCommands (state w) \<noteq> [] \<longrightarrow>
        addTerminalCommand c out w
          = emit (Ev_terminal_command c out)
              (save (w\<lparr>state := (state w)\<lparr>terminalCommands :=
                                            terminalCommands (state w) @ [c]\<rparr>\<rparr>)))"
proof -
  have a: "\<exists>es. dispatched (addTerminalCommand c out w)
            = dispatched w @ es @ [Ev_terminal_command c out]
         \<and> (\<forall>e \<in> set es. \<forall>c' o'. e \<noteq> Ev_terminal_command c' o')"
    by (simp add: addTerminalCommand_def addDiscovery_def array_includes_def save_def emit_def Let_def)
  have b: "c \<in> set (terminalCommands (state w)) \<longrightarrow>
        addTerminalCommand c out w
          = w\<lparr>dispatched := dispatched w @ [Ev_terminal_command c out]\<rparr>"
    by (simp add: addTerminalCommand_def array_includes_def emit_def)
  have c: "terminalCommands (state w) = [] \<longrightarrow>
        addTerminalCommand c out w
          = emit (Ev_terminal_command c out)
              (snd (addDiscovery ''terminal:first-command'' ''terminal''
                      ''First terminal command''
                      (save (w\<lparr>state := (state w)\<lparr>terminalCommands := [c]\<rparr>\<rparr>))))"
    by (simp add: addTerminalCommand_def array_includes_def save_def Let_def)
  have d: "terminalCommands (state w) = []
        \<and> ''terminal:first-command'' \<notin> set (discoveries (state w)) \<longrightarrow>
        discoveries (state (addTerminalCommand c out w))
          = discoveries (state w) @ [''terminal:first-command'']
        \<and> dispatched (addTerminalCommand c out w)
          = dispatched w @
            [Ev_discovery ''terminal:first-command'' ''terminal'' ''First terminal command'',
             Ev_state_change (discoveries (state w) @ [''terminal:first-command''])
               (Suc (length (discoveries (state w)))),
             Ev_terminal_command c out]"
    by (simp add: addTerminalCommand_def addDiscovery_def array_includes_def save_def emit_def Let_def)
  have e: "c \<notin> set (terminalCommands (state w)) \<and> terminalCommands (state w) \<noteq> [] \<longrightarrow>
        addTerminalCommand c out w
          = emit (Ev_terminal_command c out)
              (save (w\<lparr>state := (state w)\<lparr>terminalCommands :=
                                            terminalCommands (state w) @ [c]\<rparr>\<rparr>))"
    by (auto simp add: addTerminalCommand_def array_includes_def save_def Let_def)
  from a b c d e show ?thesis by blast
qed


text \<open>The command \<open>help\<close> typed twice on a first visit.\<close>

theorem addTerminalCommand_effects_witness:
  "terminalCommands (state firstVisit) = []
   \<and> ''terminal:first-command'' \<notin> set (discoveries (state firstVisit))
   \<and> discoveries (state (addTerminalCommand ''help'' ''ok'' firstVisit))
        = [''terminal:first-command'']
   \<and> dispatched (addTerminalCommand ''help'' ''ok'' firstVisit)
        = [Ev_visit 1 True,
           Ev_discovery ''terminal:first-command'' ''terminal'' ''First terminal command'',
           Ev_state_change [''terminal:first-command''] 1,
           Ev_terminal_command ''help'' ''ok'']
   \<and> terminalCommands (state (addTerminalCommand ''help'' ''ok'' firstVisit)) = [''help'']
   \<and> addTerminalCommand ''help'' ''again'' (addTerminalCommand ''help'' ''ok'' firstVisit)
        = (addTerminalCommand ''help'' ''ok'' firstVisit)
            \<lparr>dispatched := dispatched (addTerminalCommand ''help'' ''ok'' firstVisit)
                             @ [Ev_terminal_command ''help'' ''again'']\<rparr>
   \<and> terminalCommands (state
        (addTerminalCommand ''status'' ''fine'' (addTerminalCommand ''help'' ''ok'' firstVisit)))
        = [''help'', ''status'']
   \<and> discoveries (state
        (addTerminalCommand ''status'' ''fine'' (addTerminalCommand ''help'' ''ok'' firstVisit)))
        = [''terminal:first-command'']"
proof -
  let ?w1 = "addTerminalCommand ''help'' ''ok'' firstVisit"
  have h1: "terminalCommands (state firstVisit) = []"
    and h2: "''terminal:first-command'' \<notin> set (discoveries (state firstVisit))"
    and h3: "discoveries (state firstVisit) = []"
    and h4: "dispatched firstVisit = [Ev_visit 1 True]"
    by (simp_all add: firstVisit_def createDefaultState_def)
  note t = addTerminalCommand_effects[of "''help''" "''ok''" firstVisit]
  from t h1 h2 have
    1: "discoveries (state ?w1) = discoveries (state firstVisit) @ [''terminal:first-command'']"
    and 2: "dispatched ?w1 = dispatched firstVisit @
            [Ev_discovery ''terminal:first-command'' ''terminal'' ''First terminal command'',
             Ev_state_change (discoveries (state firstVisit) @ [''terminal:first-command''])
               (Suc (length (discoveries (state firstVisit)))),
             Ev_terminal_command ''help'' ''ok'']"
    by blast+
  from t h1 have "?w1 = emit (Ev_terminal_command ''help'' ''ok'')
              (snd (addDiscovery ''terminal:first-command'' ''terminal''
                      ''First terminal command''
                      (save (firstVisit\<lparr>state := (state firstVisit)\<lparr>terminalCommands := [''help'']\<rparr>\<rparr>))))"
    by blast
  then have 3: "terminalCommands (state ?w1) = [''help'']"
    by (simp add: emit_def addDiscovery_def save_def array_includes_def Let_def)
  then have h5: "''help'' \<in> set (terminalCommands (state ?w1))" by simp
  from addTerminalCommand_effects[of "''help''" "''again''" ?w1] h5
  have 4: "addTerminalCommand ''help'' ''again'' ?w1
             = ?w1\<lparr>dispatched := dispatched ?w1 @ [Ev_terminal_command ''help'' ''again'']\<rparr>"
    by blast
  from 1 2 have 5: "discoveries (state ?w1) = [''terminal:first-command'']"
    and 6: "dispatched ?w1 = [Ev_visit 1 True,
           Ev_discovery ''terminal:first-command'' ''terminal'' ''First terminal command'',
           Ev_state_change [''terminal:first-command''] 1,
           Ev_terminal_command ''help'' ''ok'']"
    by (simp_all add: h3 h4)
  from 3 have h7: "''status'' \<notin> set (terminalCommands (state ?w1))
                   \<and> terminalCommands (state ?w1) \<noteq> []" by simp
  from addTerminalCommand_effects[of "''status''" "''fine''" ?w1] h7
  have "addTerminalCommand ''status'' ''fine'' ?w1
          = emit (Ev_terminal_command ''status'' ''fine'')
              (save (?w1\<lparr>state := (state ?w1)\<lparr>terminalCommands :=
                                            terminalCommands (state ?w1) @ [''status'']\<rparr>\<rparr>))"
    by blast
  then have 7: "terminalCommands (state (addTerminalCommand ''status'' ''fine'' ?w1))
                  = [''help'', ''status'']"
    and 8: "discoveries (state (addTerminalCommand ''status'' ''fine'' ?w1))
                  = [''terminal:first-command'']"
    by (simp_all add: 3 5 save_def emit_def)
  from h1 h2 3 4 5 6 7 8 show ?thesis by blast
qed

subsection \<open>Monotonicity\<close>

lemma addDiscovery_appends:
  "\<exists>ys. discoveries (state (snd (addDiscovery i cat lab w))) = discoveries (state w) @ ys
        \<and> set ys \<subseteq> {i}"
  by (simp add: addDiscovery_def array_includes_def save_def emit_def Let_def)

lemma save_state [simp]: "state (save w) = state w"
  by (simp add: save_def)

lemma emit_state [simp]: "state (emit e w) = state w"
  by (simp add: emit_def)

lemma cascade_appends:
  "discoveries (state w') = discoveries (state w) \<Longrightarrow>
   \<exists>ys. discoveries (state (snd (addDiscovery i cat lab w'))) = discoveries (state w) @ ys
        \<and> set ys \<subseteq> {i}"
  using addDiscovery_appends[of i cat lab w'] by simp

lemma apply_operation_appends:
  "\<exists>ys. discoveries (state (apply_operation op w)) = discoveries (state w) @ ys
        \<and> set ys \<subseteq> set (recorded_ids op)"
proof (cases op)
  case (RecordDiscovery i cat lab)
  with addDiscovery_appends[of i cat lab w] show ?thesis by simp
next
  case (RecordConstellation name stars)
  then show ?thesis
    by (auto simp add: addConstellation_def Let_def intro!: cascade_appends)
next
  case (RecordGameComplete gameId score)
  then show ?thesis
    by (auto simp add: addGameComplete_def Let_def intro!: cascade_appends)
next
  case (RecordTerminalCommand cmd out)
  then show ?thesis
    by (auto simp add: addTerminalCommand_def Let_def intro!: cascade_appends)
next
  case IncrementStarClicks
  then show ?thesis
    by (auto simp add: clickStar_def Let_def intro!: cascade_appends)
next
  case ToggleAudio
  then show ?thesis by (simp add: toggleAudio_def Let_def)
next
  case IncrementLoop
  then show ?thesis
    by (auto simp add: incrementLoop_def Let_def intro!: cascade_appends)
qed

lemma run_appends:
  "\<exists>ys. discoveries (state (run ops w)) = discoveries (state w) @ ys
        \<and> set ys \<subseteq> set (concat (map recorded_ids ops))"
proof (induction ops arbitrary: w)
  case Nil
  then show ?case by simp
next
  case (Cons op ops)
  from apply_operation_appends[of op w] obtain ys where
    ys: "discoveries (state (apply_operation op w)) = discoveries (state w) @ ys"
        "set ys \<subseteq> set (recorded_ids op)" by blast
  from Cons.IH[of "apply_operation op w"] obtain zs where
    zs: "discoveries (state (run ops (apply_operation op w)))
           = discoveries (state (apply_operation op w)) @ zs"
        "set zs \<subseteq> set (concat (map recorded_ids ops))" by blast
  from ys zs have "discoveries (state (run (op # ops) w)) = discoveries (state w) @ (ys @ zs)"
    "set (ys @ zs) \<subseteq> set (concat (map recorded_ids (op # ops)))"
    by auto
  then show ?case by blast
qed

lemma getProgress_mono:
  "length xs \<le> length ys \<Longrightarrow>
   \<exists>p q. getProgress graphData xs = Some p \<and> getProgress graphData ys = Some q \<and> p \<le> q"
  by (simp add: getProgress_graphData zdiv_mono1)

text \<open>
  Claim C7.  Each operation of a session leaves the number of discoveries and the progress
  computed from them at least as large as before, and so does every continuation
  \<open>ops'\<close> of a sequence \<open>ops\<close> of operations.
\<close>

theorem discoveries_monotone:
  "length (discoveries (state w)) \<le> length (discoveries (state (apply_operation op w)))
   \<and> (\<exists>p q. getProgress graphData (discoveries (state w)) = Some p
          \<and> getProgress graphData (discoveries (state (apply_operation op w))) = Some q
          \<and> p \<le> q)
   \<and> length (discoveries (state (run ops w)))
        \<le> length (discoveries (state (run (ops @ ops') w)))
   \<and> (\<exists>p q. getProgress graphData (discoveries (state (run ops w))) = Some p
          \<and> getProgress graphData (discoveries (state (run (ops @ ops') w))) = Some q
          \<and> p \<le> q)"
proof -
  have r: "run (ops @ ops') w = run ops' (run ops w)"
    by (induction ops arbitrary: w) simp_all
  from apply_operation_appends[of op w]
  have 1: "length (discoveries (state w)) \<le> length (discoveries (state (apply_operation op w)))"
    by auto
  from run_appends[of ops' "run ops w"]
  have 2: "length (discoveries (state (run ops w)))
        \<le> length (discoveries (state (run (ops @ ops') w)))"
    unfolding r by auto
  from 1 2 getProgress_mono[OF 1] getProgress_mono[OF 2] show ?thesis by blast
qed


text \<open>A first star click, followed by three more operations.\<close>

theorem discoveries_monotone_witness:
  "discoveries (state (run [IncrementStarClicks] firstVisit)) = [''star:first-click'']
   \<and> length (discoveries (state (run [IncrementStarClicks] firstVisit)))
        \<le> length (discoveries (state
              (run ([IncrementStarClicks] @ [ToggleAudio, IncrementStarClicks, IncrementLoop])
                 firstVisit)))
   \<and> (\<exists>p q. getProgress graphData (discoveries (state (run [IncrementStarClicks] firstVisit)))
                = Some p
          \<and> getProgress graphData (discoveries (state
               (run ([IncrementStarClicks] @ [ToggleAudio, IncrementStarClicks, IncrementLoop])
                  firstVisit))) = Some q
          \<and> p \<le> q)"
proof -
  have "discoveries (state (run [IncrementStarClicks] firstVisit)) = [''star:first-click'']"
    by (simp add: clickStar_def addDiscovery_def array_includes_def firstVisit_def
        createDefaultState_def Let_def)
  with discoveries_monotone
    [of firstVisit IncrementStarClicks "[IncrementStarClicks]"
        "[ToggleAudio, IncrementStarClicks, IncrementLoop]"]
  show ?thesis by blast
qed

lemma getNode_outside:
  "getNode graphData ''terminal:opened'' = None"
  "getNode graphData ''night:flashlight'' = None"
  by (simp_all add: getNode_def graphData_def)

lemma getNode_cascade_ids:
  "getNode graphData ''terminal:first-command'' \<noteq> None"
  "getNode graphData ''star:first-click'' \<noteq> None"
  "getNode graphData ''loop:first-reset'' \<noteq> None"
  by (simp_all add: getNode_def graphData_def)

text \<open>
  The terminal component and the flashlight component record ids that are no nodes of the
  graph: after \<open>openTerminal\<close>, and after \<open>checkNight\<close> at nightfall, the discoveries of
  a first session hold an id that \<open>getNode\<close> does not find.
\<close>

theorem discoveries_outside_graph_counterexample:
  "init lt1_never epoch epoch freshWorld = Inr firstVisit
   \<and> ''terminal:opened'' \<in> set (discoveries (state (openTerminal firstVisit)))
   \<and> getNode graphData ''terminal:opened'' = None
   \<and> ''night:flashlight'' \<in> set (discoveries (state (snd (checkNight False True firstVisit))))
   \<and> getNode graphData ''night:flashlight'' = None"
proof -
  have "''terminal:opened'' \<in> set (discoveries (state (openTerminal firstVisit)))"
    by (simp add: openTerminal_def addDiscovery_def array_includes_def firstVisit_def
        createDefaultState_def Let_def)
  moreover
  have "''night:flashlight'' \<in> set (discoveries (state (snd (checkNight False True firstVisit))))"
    by (simp add: checkNight_def addDiscovery_def array_includes_def firstVisit_def
        createDefaultState_def Let_def)
  ultimately show ?thesis
    using init_freshWorld getNode_outside by simp
qed

text \<open>
  Claim C9, as amended.  The store never checks an id against the graph.  After any
  sequence of operations every id among the discoveries was there before or was handed to
  \<open>addDiscovery\<close> by one of the operations; so the discoveries hold only ids of graph
  nodes when they did at the start and every recorded id is one.  The three ids that the
  store records by itself are graph nodes.
\<close>

theorem discoveries_come_from_callers:
  "set (discoveries (state (run ops w)))
     \<subseteq> set (discoveries (state w)) \<union> set (concat (map recorded_ids ops))
   \<and> ((\<forall>i \<in> set (discoveries (state w)). getNode graphData i \<noteq> None)
        \<and> (\<forall>op \<in> set ops. \<forall>i \<in> set (recorded_ids op). getNode graphData i \<noteq> None)
      \<longrightarrow> (\<forall>i \<in> set (discoveries (state (run ops w))). getNode graphData i \<noteq> None))
   \<and> getNode graphData ''terminal:first-command'' \<noteq> None
   \<and> getNode graphData ''star:first-click'' \<noteq> None
   \<and> getNode graphData ''loop:first-reset'' \<noteq> None"
proof -
  from run_appends[of ops w] obtain ys where
    ys: "discoveries (state (run ops w)) = discoveries (state w) @ ys"
        "set ys \<subseteq> set (concat (map recorded_ids ops))" by blast
  then have 1: "set (discoveries (state (run ops w)))
     \<subseteq> set (discoveries (state w)) \<union> set (concat (map recorded_ids ops))"
    by auto
  have 2: "(\<forall>i \<in> set (discoveries (state w)). getNode graphData i \<noteq> None)
        \<and> (\<forall>op \<in> set ops. \<forall>i \<in> set (recorded_ids op). getNode graphData i \<noteq> None)
      \<longrightarrow> (\<forall>i \<in> set (discoveries (state (run ops w))). getNode graphData i \<noteq> None)"
  proof (intro impI ballI)
    fix i
    assume h: "(\<forall>i \<in> set (discoveries (state w)). getNode graphData i \<noteq> None)
        \<and> (\<forall>op \<in> set ops. \<forall>i \<in> set (recorded_ids op). getNode graphData i \<noteq> None)"
      and i: "i \<in> set (discoveries (state (run ops w)))"
    from i 1 consider "i \<in> set (discoveries (state w))"
      | "i \<in> set (concat (map recorded_ids ops))" by blast
    then show "getNode graphData i \<noteq> None"
    proof cases
      case 1
      with h show ?thesis by blast
    next
      case 2
      then obtain op where "op \<in> set ops" "i \<in> set (recorded_ids op)" by auto
      with h show ?thesis by blast
    qed
  qed
  from 1 2 getNode_cascade_ids show ?thesis by blast
qed

text \<open>A session that records only ids of graph nodes.\<close>

theorem discoveries_come_from_callers_witness:
  "list_all (\<lambda>i. getNode graphData i \<noteq> None) (discoveries (state firstVisit))
   \<and> list_all (\<lambda>i. getNode graphData i \<noteq> None)
        (concat (map recorded_ids
           [IncrementStarClicks, RecordGameComplete ''gravity-hop'' 10,
            RecordTerminalCommand ''help'' ''ok'']))
   \<and> discoveries (state (run [IncrementStarClicks, RecordGameComplete ''gravity-hop'' 10,
                                RecordTerminalCommand ''help'' ''ok''] firstVisit))
        = [''star:first-click'', ''game:gravity-hop'', ''terminal:first-command'']
   \<and> list_all (\<lambda>i. getNode graphData i \<noteq> None)
        (discoveries (state
          (run [IncrementStarClicks, RecordGameComplete ''gravity-hop'' 10,
                RecordTerminalCommand ''help'' ''ok''] firstVisit)))"
proof -
  let ?ops = "[IncrementStarClicks, RecordGameComplete ''gravity-hop'' 10,
               RecordTerminalCommand ''help'' ''ok'']"
  have h1: "\<forall>i \<in> set (discoveries (state firstVisit)). getNode graphData i \<noteq> None"
    by (simp add: firstVisit_def createDefaultState_def)
  have h2: "\<forall>op \<in> set ?ops. \<forall>i \<in> set (recorded_ids op). getNode graphData i \<noteq> None"
    by (simp add: getNode_def graphData_def)
  have e: "discoveries (state (run ?ops firstVisit))
        = [''star:first-click'', ''game:gravity-hop'', ''terminal:first-command'']"
    by (simp add: clickStar_def addGameComplete_def addTerminalCommand_def addDiscovery_def
        array_includes_def firstVisit_def createDefaultState_def save_def emit_def Let_def)
  from discoveries_come_from_callers[of ?ops firstVisit] h1 h2
  have c: "\<forall>i \<in> set (discoveries (state (run ?ops firstVisit))). getNode graphData i \<noteq> None"
    by blast
  from h1 have 1: "list_all (\<lambda>i. getNode graphData i \<noteq> None) (discoveries (state firstVisit))"
    by (simp only: list_all_iff)
  from h2 have 2: "list_all (\<lambda>i. getNode graphData i \<noteq> None)
        (concat (map recorded_ids ?ops))"
    unfolding list_all_iff by auto
  from c have 3: "list_all (\<lambda>i. getNode graphData i \<noteq> None)
        (discoveries (state (run ?ops firstVisit)))"
    by (simp only: list_all_iff)
  from 1 2 e 3 show ?thesis by blast
qed

section \<open>Properties of migration and loading\<close>

lemma copy_array_step:
  "map_of al k = Some (JArr d) \<Longrightarrow>
   (case x of Some (JArr xs) \<Rightarrow> AList.update k (JArr xs) al | _ \<Rightarrow> al)
     = AList.update k (JArr (copied_array x d)) al"
  by (auto simp: copied_array_def update_triv split: option.split json.split)

lemma copy_number_step:
  "map_of al k = Some (JNum d) \<Longrightarrow>
   (case x of Some (JNum n) \<Rightarrow> AList.update k (JNum n) al | _ \<Rightarrow> al)
     = AList.update k (JNum (copied_number x d)) al"
  by (auto simp: copied_number_def update_triv split: option.split json.split)

lemma copy_string_step:
  "map_of al k = Some (JStr d) \<Longrightarrow>
   (case x of Some (JStr s) \<Rightarrow> AList.update k (JStr s) al | _ \<Rightarrow> al)
     = AList.update k (JStr (copied_string x d)) al"
  by (auto simp: copied_string_def update_triv split: option.split json.split)

lemma migrate_old:
  assumes old: "\<not> truthy (get_prop parsed ''version'') \<or> less_than_1 lt1 (get_prop parsed ''version'')"
    and nn: "parsed \<noteq> JNull"
  shows "migrate lt1 c parsed = Some (JObj
     [(''version'', JNum 1),
      (''discoveries'', JArr (copied_array (get_prop parsed ''discoveries'') [])),
      (''constellations'', JArr []),
      (''gamesCompleted'', JArr []),
      (''terminalCommands'', JArr []),
      (''visitCount'', JNum (copied_number (get_prop parsed ''visitCount'') 0)),
      (''firstVisitDate'', JStr (copied_string (get_prop parsed ''firstVisitDate'') (toISOString c))),
      (''lastVisitDate'', JStr (toISOString c)),
      (''sessionStart'', JNum (now c)),
      (''loopCount'', JNum 0),
      (''audioEnabled'', JBool False),
      (''totalClickedStars'', JNum 0)])"
proof -
  define s0 where "s0 = properties (createDefaultState c)"
  define s1 where "s1 = (case get_prop parsed ''discoveries'' of
                            Some (JArr xs) \<Rightarrow> AList.update ''discoveries'' (JArr xs) s0
                          | _ \<Rightarrow> s0)"
  define s2 where "s2 = (case get_prop parsed ''visitCount'' of
                            Some (JNum n) \<Rightarrow> AList.update ''visitCount'' (JNum n) s1
                          | _ \<Rightarrow> s1)"
  define s3 where "s3 = (case get_prop parsed ''firstVisitDate'' of
                            Some (JStr s) \<Rightarrow> AList.update ''firstVisitDate'' (JStr s) s2
                          | _ \<Rightarrow> s2)"
  have m: "migrate lt1 c parsed = Some (JObj (AList.update ''version'' (JNum SCHEMA_VERSION) s3))"
    unfolding migrate_def Let_def s3_def s2_def s1_def s0_def using old nn by (simp only: if_True if_False)
  have e0: "s0 = [(''version'', JNum 1),
      (''discoveries'', JArr []),
      (''constellations'', JArr []),
      (''gamesCompleted'', JArr []),
      (''terminalCommands'', JArr []),
      (''visitCount'', JNum 0),
      (''firstVisitDate'', JStr (toISOString c)),
      (''lastVisitDate'', JStr (toISOString c)),
      (''sessionStart'', JNum (now c)),
      (''loopCount'', JNum 0),
      (''audioEnabled'', JBool False),
      (''totalClickedStars'', JNum 0)]"
    by (simp add: s0_def properties_def createDefaultState_def SCHEMA_VERSION_def)
  have e1: "s1 = AList.update ''discoveries'' (JArr (copied_array (get_prop parsed ''discoveries'') [])) s0"
    unfolding s1_def by (rule copy_array_step) (simp add: e0)
  have e2: "s2 = AList.update ''visitCount'' (JNum (copied_number (get_prop parsed ''visitCount'') 0)) s1"
    unfolding s2_def by (rule copy_number_step) (simp add: e1 e0)
  have e3: "s3 = AList.update ''firstVisitDate'' (JStr (copied_string (get_prop parsed ''firstVisitDate'') (toISOString c))) s2"
    unfolding s3_def by (rule copy_string_step) (simp add: e2 e1 e0)
  show ?thesis unfolding m e3 e2 e1 e0 by (simp add: SCHEMA_VERSION_def)
qed

lemma migrate_not_old:
  assumes "\<not> (\<not> truthy (get_prop parsed ''version'') \<or> less_than_1 lt1 (get_prop parsed ''version''))"
    and "parsed \<noteq> JNull"
  shows "migrate lt1 c parsed = Some (toJson (createDefaultState c))"
  using assms
  by (simp add: migrate_def Let_def toJson_def properties_def createDefaultState_def)


lemma load_parsed:
  assumes "\<not> getItem_throws st" "item st = Some (Parses parsed)" "parsed \<noteq> JNull"
    "get_prop parsed ''version'' \<noteq> Some (JNum SCHEMA_VERSION)"
  shows "load lt1 c st = (case migrate lt1 c parsed of
                            None \<Rightarrow> toJson (createDefaultState c) | Some s \<Rightarrow> s)"
  using assms by (simp add: load_def)

lemma load_current:
  assumes "\<not> getItem_throws st" "item st = Some (Parses parsed)"
    "get_prop parsed ''version'' = Some (JNum SCHEMA_VERSION)"
  shows "load lt1 c st = parsed"
proof -
  from assms(3) have "parsed \<noteq> JNull" by (auto simp: get_prop_def)
  with assms show ?thesis by (simp add: load_def)
qed

lemma load_defaults:
  assumes "getItem_throws st \<or> item st = None \<or> item st = Some Empty
           \<or> item st = Some Unparsable \<or> item st = Some (Parses JNull)"
  shows "load lt1 c st = toJson (createDefaultState c)"
  using assms by (auto simp add: load_def)

lemma version_toJson: "get_prop (toJson s) ''version'' = Some (JNum (version s))"
  by (simp add: get_prop_def toJson_def properties_def)

lemma asDiscoveryState_migrated:
  assumes "strings_of ds = Some ss"
  shows "asDiscoveryState (JObj
     [(''version'', JNum 1),
      (''discoveries'', JArr ds),
      (''constellations'', JArr []),
      (''gamesCompleted'', JArr []),
      (''terminalCommands'', JArr []),
      (''visitCount'', JNum vc),
      (''firstVisitDate'', JStr fd),
      (''lastVisitDate'', JStr (toISOString c)),
      (''sessionStart'', JNum (now c)),
      (''loopCount'', JNum 0),
      (''audioEnabled'', JBool False),
      (''totalClickedStars'', JNum 0)])
    = Some ((createDefaultState c)\<lparr>discoveries := ss, visitCount := vc, firstVisitDate := fd\<rparr>)"
  using assms
  by (simp add: asDiscoveryState_def num_prop_def str_prop_def bool_prop_def strs_prop_def
      get_prop_def createDefaultState_def SCHEMA_VERSION_def)

text \<open>
  \<open>migrate\<close> is not idempotent.  The version-0 record with only
  \<open>discoveries = [a]\<close> migrates to the defaults with these discoveries; \<open>migrate\<close>
  applied to that result sees version 1, copies nothing and returns the bare defaults.
\<close>

theorem migrate_twice_counterexample:
  "migrate lt1_never epoch (JObj [(''discoveries'', JArr [JStr ''a''])])
     = Some (toJson ((createDefaultState epoch)\<lparr>discoveries := [''a'']\<rparr>))
   \<and> migrate lt1_never epoch (toJson ((createDefaultState epoch)\<lparr>discoveries := [''a'']\<rparr>))
     = Some (toJson (createDefaultState epoch))
   \<and> toJson (createDefaultState epoch)
     \<noteq> toJson ((createDefaultState epoch)\<lparr>discoveries := [''a'']\<rparr>)"
proof -
  have 1: "migrate lt1_never epoch (JObj [(''discoveries'', JArr [JStr ''a''])])
     = Some (toJson ((createDefaultState epoch)\<lparr>discoveries := [''a'']\<rparr>))"
    by (subst migrate_old)
       (simp_all add: get_prop_def truthy_def copied_array_def copied_number_def
          copied_string_def toJson_def properties_def createDefaultState_def SCHEMA_VERSION_def)
  have 2: "migrate lt1_never epoch (toJson ((createDefaultState epoch)\<lparr>discoveries := [''a'']\<rparr>))
     = Some (toJson (createDefaultState epoch))"
  proof (rule migrate_not_old)
    show "\<not> (\<not> truthy (get_prop (toJson ((createDefaultState epoch)\<lparr>discoveries := [''a'']\<rparr>))
                          ''version'')
             \<or> less_than_1 lt1_never
                  (get_prop (toJson ((createDefaultState epoch)\<lparr>discoveries := [''a'']\<rparr>))
                     ''version''))"
      by (simp add: version_toJson truthy_def less_than_1_def createDefaultState_def
          SCHEMA_VERSION_def)
    show "toJson ((createDefaultState epoch)\<lparr>discoveries := [''a'']\<rparr>) \<noteq> JNull"
      by (simp add: toJson_def)
  qed
  have 3: "toJson (createDefaultState epoch)
     \<noteq> toJson ((createDefaultState epoch)\<lparr>discoveries := [''a'']\<rparr>)"
    by (simp add: toJson_def properties_def createDefaultState_def)
  from 1 2 3 show ?thesis by blast
qed

text \<open>
  Claim C5, as amended.  Migrating the version-0 record with only \<open>discoveries = [a]\<close>
  gives a state of the current version with these discoveries and every other field at its
  default, and that state is a well-typed \<open>DiscoveryState\<close>.  Loading a persisted state
  of the current version returns it as it is, without migrating: that is how a migrated
  state survives a reload.  \<open>migrate\<close> itself maps every state of the current version
  to the defaults.
\<close>

theorem migrate_version0_then_reload:
  "migrate lt1 c (JObj [(''discoveries'', JArr [JStr ''a''])])
     = Some (toJson ((createDefaultState c)\<lparr>discoveries := [''a'']\<rparr>))
   \<and> asDiscoveryState (toJson ((createDefaultState c)\<lparr>discoveries := [''a'']\<rparr>))
     = Some ((createDefaultState c)\<lparr>discoveries := [''a'']\<rparr>)
   \<and> version ((createDefaultState c)\<lparr>discoveries := [''a'']\<rparr>) = SCHEMA_VERSION
   \<and> (version s = SCHEMA_VERSION \<and> \<not> getItem_throws st \<and> item st = Some (Parses (toJson s))
        \<longrightarrow> load lt1 c' st = toJson s)
   \<and> (version s = SCHEMA_VERSION
        \<longrightarrow> migrate lt1 c' (toJson s) = Some (toJson (createDefaultState c')))"
proof -
  have 1: "migrate lt1 c (JObj [(''discoveries'', JArr [JStr ''a''])])
     = Some (toJson ((createDefaultState c)\<lparr>discoveries := [''a'']\<rparr>))"
    by (subst migrate_old)
       (simp_all add: get_prop_def truthy_def copied_array_def copied_number_def
          copied_string_def toJson_def properties_def createDefaultState_def SCHEMA_VERSION_def)
  have 2: "version ((createDefaultState c)\<lparr>discoveries := [''a'']\<rparr>) = SCHEMA_VERSION"
    by (simp add: createDefaultState_def)
  have 3: "version s = SCHEMA_VERSION \<and> \<not> getItem_throws st \<and> item st = Some (Parses (toJson s))
        \<longrightarrow> load lt1 c' st = toJson s"
    using load_current[of st "toJson s" lt1 c'] by (simp add: version_toJson)
  have 4: "version s = SCHEMA_VERSION
        \<longrightarrow> migrate lt1 c' (toJson s) = Some (toJson (createDefaultState c'))"
  proof
    assume v: "version s = SCHEMA_VERSION"
    show "migrate lt1 c' (toJson s) = Some (toJson (createDefaultState c'))"
    proof (rule migrate_not_old)
      show "\<not> (\<not> truthy (get_prop (toJson s) ''version'')
               \<or> less_than_1 lt1 (get_prop (toJson s) ''version''))"
        by (simp add: version_toJson v truthy_def less_than_1_def SCHEMA_VERSION_def)
      show "toJson s \<noteq> JNull" by (simp add: toJson_def)
    qed
  qed
  from 1 2 3 4 asDiscoveryState_toJson show ?thesis by blast
qed


text \<open>The migrated record, stored and loaded again, and migrated again.\<close>

theorem migrate_version0_then_reload_witness:
  "version ((createDefaultState epoch)\<lparr>discoveries := [''a'']\<rparr>) = SCHEMA_VERSION
   \<and> load lt1_never epoch
        \<lparr>item = Some (Parses (toJson ((createDefaultState epoch)\<lparr>discoveries := [''a'']\<rparr>))),
         getItem_throws = False, setItem_throws = False\<rparr>
       = toJson ((createDefaultState epoch)\<lparr>discoveries := [''a'']\<rparr>)
   \<and> migrate lt1_never epoch (toJson ((createDefaultState epoch)\<lparr>discoveries := [''a'']\<rparr>))
       = Some (toJson (createDefaultState epoch))"
proof -
  let ?s = "(createDefaultState epoch)\<lparr>discoveries := [''a'']\<rparr>"
  let ?st = "\<lparr>item = Some (Parses (toJson ?s)), getItem_throws = False, setItem_throws = False\<rparr>"
  have h: "version ?s = SCHEMA_VERSION \<and> \<not> getItem_throws ?st
           \<and> item ?st = Some (Parses (toJson ?s))"
    by (simp add: createDefaultState_def)
  with migrate_version0_then_reload[of lt1_never epoch ?s ?st epoch]
  show ?thesis by blast
qed

lemma strings_of_copied:
  assumes "\<forall>xs. x = Some (JArr xs) \<longrightarrow> strings_of xs \<noteq> None"
  shows "\<exists>ss. strings_of (copied_array x []) = Some ss"
proof (cases "\<exists>xs. x = Some (JArr xs)")
  case True
  then obtain xs where "x = Some (JArr xs)" by blast
  with assms show ?thesis by (auto simp: copied_array_def)
next
  case False
  then have "copied_array x [] = []"
    by (auto simp: copied_array_def split: option.split json.split)
  then show ?thesis by simp
qed

lemma load_old:
  assumes "\<not> getItem_throws st" "item st = Some (Parses parsed)" "parsed \<noteq> JNull"
    "get_prop parsed ''version'' \<noteq> Some (JNum SCHEMA_VERSION)"
    "\<not> truthy (get_prop parsed ''version'') \<or> less_than_1 lt1 (get_prop parsed ''version'')"
  shows "load lt1 c st = JObj
           [(''version'', JNum 1),
            (''discoveries'', JArr (copied_array (get_prop parsed ''discoveries'') [])),
            (''constellations'', JArr []),
            (''gamesCompleted'', JArr []),
            (''terminalCommands'', JArr []),
            (''visitCount'', JNum (copied_number (get_prop parsed ''visitCount'') 0)),
            (''firstVisitDate'',
               JStr (copied_string (get_prop parsed ''firstVisitDate'') (toISOString c))),
            (''lastVisitDate'', JStr (toISOString c)),
            (''sessionStart'', JNum (now c)),
            (''loopCount'', JNum 0),
            (''audioEnabled'', JBool False),
            (''totalClickedStars'', JNum 0)]"
  using load_parsed[OF assms(1-4), of lt1 c] migrate_old[OF assms(5,3), of c] by simp

lemma load_old_typed:
  assumes "\<not> getItem_throws st" "item st = Some (Parses parsed)" "parsed \<noteq> JNull"
    "get_prop parsed ''version'' \<noteq> Some (JNum SCHEMA_VERSION)"
    "\<not> truthy (get_prop parsed ''version'') \<or> less_than_1 lt1 (get_prop parsed ''version'')"
    "strings_of (copied_array (get_prop parsed ''discoveries'') []) = Some ss"
  shows "asDiscoveryState (load lt1 c st)
                = Some ((createDefaultState c)
                     \<lparr>discoveries := ss,
                      visitCount := copied_number (get_prop parsed ''visitCount'') 0,
                      firstVisitDate :=
                        copied_string (get_prop parsed ''firstVisitDate'') (toISOString c)\<rparr>)"
  unfolding load_old[OF assms(1-5)] by (rule asDiscoveryState_migrated[OF assms(6)])

lemma load_not_old:
  assumes "\<not> getItem_throws st" "item st = Some (Parses parsed)" "parsed \<noteq> JNull"
    "get_prop parsed ''version'' \<noteq> Some (JNum SCHEMA_VERSION)"
    "\<not> (\<not> truthy (get_prop parsed ''version'')
        \<or> less_than_1 lt1 (get_prop parsed ''version''))"
  shows "load lt1 c st = toJson (createDefaultState c)"
  using load_parsed[OF assms(1-4), of lt1 c] migrate_not_old[OF assms(5,3), of c] by simp

text \<open>
  Claim C6, as amended.  Let the storage hold a record that parses to a value other than
  \<^verbatim>\<open>null\<close> whose version is not the current one.  If the version is missing, falsy or
  below 1, \<open>load\<close> returns the defaults with \<open>discoveries\<close> (when an array),
  \<open>visitCount\<close> (when a number) and \<open>firstVisitDate\<close> (when a string) copied from the
  record, at the current version; when the copied discoveries are strings this is the typed
  state one expects.  For every other version \<open>load\<close> returns the plain defaults and
  copies nothing.  A missing version is falsy.
\<close>

theorem load_version_below_1_copies:
  "\<not> getItem_throws st \<and> item st = Some (Parses parsed) \<and> parsed \<noteq> JNull
     \<and> get_prop parsed ''version'' \<noteq> Some (JNum SCHEMA_VERSION) \<longrightarrow>
   (\<not> truthy (get_prop parsed ''version'') \<or> less_than_1 lt1 (get_prop parsed ''version'')
      \<longrightarrow> load lt1 c st = JObj
           [(''version'', JNum SCHEMA_VERSION),
            (''discoveries'', JArr (copied_array (get_prop parsed ''discoveries'') [])),
            (''constellations'', JArr []),
            (''gamesCompleted'', JArr []),
            (''terminalCommands'', JArr []),
            (''visitCount'', JNum (copied_number (get_prop parsed ''visitCount'') 0)),
            (''firstVisitDate'',
               JStr (copied_string (get_prop parsed ''firstVisitDate'') (toISOString c))),
            (''lastVisitDate'', JStr (toISOString c)),
            (''sessionStart'', JNum (now c)),
            (''loopCount'', JNum 0),
            (''audioEnabled'', JBool False),
            (''totalClickedStars'', JNum 0)]
        \<and> (\<forall>ss. strings_of (copied_array (get_prop parsed ''discoveries'') []) = Some ss \<longrightarrow>
              asDiscoveryState (load lt1 c st)
                = Some ((createDefaultState c)
                     \<lparr>discoveries := ss,
                      visitCount := copied_number (get_prop parsed ''visitCount'') 0,
                      firstVisitDate :=
                        copied_string (get_prop parsed ''firstVisitDate'') (toISOString c)\<rparr>)))
   \<and> (\<not> (\<not> truthy (get_prop parsed ''version'')
            \<or> less_than_1 lt1 (get_prop parsed ''version''))
      \<longrightarrow> load lt1 c st = toJson (createDefaultState c))
   \<and> (get_prop parsed ''version'' = None
      \<longrightarrow> \<not> truthy (get_prop parsed ''version''))"
proof (intro impI)
  assume h: "\<not> getItem_throws st \<and> item st = Some (Parses parsed) \<and> parsed \<noteq> JNull
     \<and> get_prop parsed ''version'' \<noteq> Some (JNum SCHEMA_VERSION)"
  then have l: "load lt1 c st = (case migrate lt1 c parsed of
                            None \<Rightarrow> toJson (createDefaultState c) | Some s \<Rightarrow> s)"
    by (simp add: load_parsed)
  have a: "load lt1 c st = JObj
           [(''version'', JNum SCHEMA_VERSION),
            (''discoveries'', JArr (copied_array (get_prop parsed ''discoveries'') [])),
            (''constellations'', JArr []),
            (''gamesCompleted'', JArr []),
            (''terminalCommands'', JArr []),
            (''visitCount'', JNum (copied_number (get_prop parsed ''visitCount'') 0)),
            (''firstVisitDate'',
               JStr (copied_string (get_prop parsed ''firstVisitDate'') (toISOString c))),
            (''lastVisitDate'', JStr (toISOString c)),
            (''sessionStart'', JNum (now c)),
            (''loopCount'', JNum 0),
            (''audioEnabled'', JBool False),
            (''totalClickedStars'', JNum 0)]"
    if "\<not> truthy (get_prop parsed ''version'') \<or> less_than_1 lt1 (get_prop parsed ''version'')"
    using migrate_old[OF that, of c] h l by (simp add: SCHEMA_VERSION_def)
  have b: "\<forall>ss. strings_of (copied_array (get_prop parsed ''discoveries'') []) = Some ss \<longrightarrow>
              asDiscoveryState (load lt1 c st)
                = Some ((createDefaultState c)
                     \<lparr>discoveries := ss,
                      visitCount := copied_number (get_prop parsed ''visitCount'') 0,
                      firstVisitDate :=
                        copied_string (get_prop parsed ''firstVisitDate'') (toISOString c)\<rparr>)"
    if "\<not> truthy (get_prop parsed ''version'') \<or> less_than_1 lt1 (get_prop parsed ''version'')"
    unfolding a[OF that] SCHEMA_VERSION_def by (intro allI impI) (rule asDiscoveryState_migrated)
  have d: "load lt1 c st = toJson (createDefaultState c)"
    if "\<not> (\<not> truthy (get_prop parsed ''version'')
            \<or> less_than_1 lt1 (get_prop parsed ''version''))"
    using migrate_not_old[OF that, of c] h l by simp
  have e: "get_prop parsed ''version'' = None \<longrightarrow> \<not> truthy (get_prop parsed ''version'')"
    by (simp add: truthy_def)
  from a b d e show "(\<not> truthy (get_prop parsed ''version'') \<or> less_than_1 lt1 (get_prop parsed ''version'')
      \<longrightarrow> load lt1 c st = JObj
           [(''version'', JNum SCHEMA_VERSION),
            (''discoveries'', JArr (copied_array (get_prop parsed ''discoveries'') [])),
            (''constellations'', JArr []),
            (''gamesCompleted'', JArr []),
            (''terminalCommands'', JArr []),
            (''visitCount'', JNum (copied_number (get_prop parsed ''visitCount'') 0)),
            (''firstVisitDate'',
               JStr (copied_string (get_prop parsed ''firstVisitDate'') (toISOString c))),
            (''lastVisitDate'', JStr (toISOString c)),
            (''sessionStart'', JNum (now c)),
            (''loopCount'', JNum 0),
            (''audioEnabled'', JBool False),
            (''totalClickedStars'', JNum 0)]
        \<and> (\<forall>ss. strings_of (copied_array (get_prop parsed ''discoveries'') []) = Some ss \<longrightarrow>
              asDiscoveryState (load lt1 c st)
                = Some ((createDefaultState c)
                     \<lparr>discoveries := ss,
                      visitCount := copied_number (get_prop parsed ''visitCount'') 0,
                      firstVisitDate :=
                        copied_string (get_prop parsed ''firstVisitDate'') (toISOString c)\<rparr>)))
   \<and> (\<not> (\<not> truthy (get_prop parsed ''version'')
            \<or> less_than_1 lt1 (get_prop parsed ''version''))
      \<longrightarrow> load lt1 c st = toJson (createDefaultState c))
   \<and> (get_prop parsed ''version'' = None
      \<longrightarrow> \<not> truthy (get_prop parsed ''version''))"
    by blast
qed


text \<open>
  A record of the unknown version 2 is not treated as version 0: its discoveries are not
  copied, \<open>load\<close> returns the defaults.
\<close>

theorem load_unknown_version_counterexample:
  "get_prop version2Record ''version'' = Some (JNum 2)
   \<and> get_prop version2Record ''discoveries'' = Some (JArr [JStr ''a''])
   \<and> load lt1_never epoch (holding version2Record) = toJson (createDefaultState epoch)
   \<and> get_prop (load lt1_never epoch (holding version2Record)) ''discoveries'' = Some (JArr [])"
proof -
  have v: "get_prop version2Record ''version'' = Some (JNum 2)"
    "get_prop version2Record ''discoveries'' = Some (JArr [JStr ''a''])"
    by (simp_all add: version2Record_def get_prop_def)
  have n: "version2Record \<noteq> JNull" by (simp add: version2Record_def)
  have l: "load lt1_never epoch (holding version2Record) = toJson (createDefaultState epoch)"
    using load_not_old[of "holding version2Record" version2Record lt1_never epoch]
    by (simp add: holding_def v n SCHEMA_VERSION_def truthy_def less_than_1_def)
  have "get_prop (toJson (createDefaultState epoch)) ''discoveries'' = Some (JArr [])"
    by (simp add: get_prop_def toJson_def properties_def createDefaultState_def)
  with v l show ?thesis by simp
qed

text \<open>
  The version-0 record keeps its discoveries and its visit count and gets the default first
  visit date; the version-2 record is replaced by the defaults.
\<close>

theorem load_version_below_1_copies_witness:
  "get_prop version0Record ''version'' = None
   \<and> asDiscoveryState (load lt1_never epoch (holding version0Record))
       = Some ((createDefaultState epoch)\<lparr>discoveries := [''a''], visitCount := 3\<rparr>)
   \<and> get_prop version2Record ''version'' = Some (JNum 2)
   \<and> load lt1_never epoch (holding version2Record) = toJson (createDefaultState epoch)"
proof -
  have v0: "get_prop version0Record ''version'' = None"
    "get_prop version0Record ''discoveries'' = Some (JArr [JStr ''a''])"
    "get_prop version0Record ''visitCount'' = Some (JNum 3)"
    "get_prop version0Record ''firstVisitDate'' = Some (JNum 5)"
    "version0Record \<noteq> JNull"
    by (simp_all add: version0Record_def get_prop_def)
  have h0: "\<not> getItem_throws (holding version0Record)
            \<and> item (holding version0Record) = Some (Parses version0Record)
            \<and> version0Record \<noteq> JNull
            \<and> get_prop version0Record ''version'' \<noteq> Some (JNum SCHEMA_VERSION)"
    by (simp add: holding_def v0)
  have o0: "\<not> truthy (get_prop version0Record ''version'')
            \<or> less_than_1 lt1_never (get_prop version0Record ''version'')"
    by (simp add: v0 truthy_def)
  have c0: "strings_of (copied_array (get_prop version0Record ''discoveries'') []) = Some [''a'']"
    "copied_number (get_prop version0Record ''visitCount'') 0 = 3"
    "copied_string (get_prop version0Record ''firstVisitDate'') (toISOString epoch)
       = toISOString epoch"
    by (simp_all add: v0 copied_array_def copied_number_def copied_string_def)
  from load_version_below_1_copies[of "holding version0Record" version0Record lt1_never epoch]
    h0 o0 c0(1)
  have "asDiscoveryState (load lt1_never epoch (holding version0Record))
                = Some ((createDefaultState epoch)
                     \<lparr>discoveries := [''a''],
                      visitCount := copied_number (get_prop version0Record ''visitCount'') 0,
                      firstVisitDate :=
                        copied_string (get_prop version0Record ''firstVisitDate'')
                          (toISOString epoch)\<rparr>)"
    by blast
  then have 1: "asDiscoveryState (load lt1_never epoch (holding version0Record))
       = Some ((createDefaultState epoch)\<lparr>discoveries := [''a''], visitCount := 3\<rparr>)"
    by (simp add: c0 createDefaultState_def)
  have v2: "get_prop version2Record ''version'' = Some (JNum 2)" "version2Record \<noteq> JNull"
    by (simp_all add: version2Record_def get_prop_def)
  have h2: "\<not> getItem_throws (holding version2Record)
            \<and> item (holding version2Record) = Some (Parses version2Record)
            \<and> version2Record \<noteq> JNull
            \<and> get_prop version2Record ''version'' \<noteq> Some (JNum SCHEMA_VERSION)"
    by (simp add: holding_def v2 SCHEMA_VERSION_def)
  have o2: "\<not> (\<not> truthy (get_prop version2Record ''version'')
            \<or> less_than_1 lt1_never (get_prop version2Record ''version''))"
    by (simp add: v2 truthy_def less_than_1_def)
  from load_version_below_1_copies[of "holding version2Record" version2Record lt1_never epoch]
    h2 o2
  have 2: "load lt1_never epoch (holding version2Record) = toJson (createDefaultState epoch)"
    by blast
  from v0(1) 1 v2(1) 2 show ?thesis by blast
qed

text \<open>
  An older record whose \<open>discoveries\<close> is an array of numbers passes the
  \<^verbatim>\<open>Array.isArray\<close> guard: the state that \<open>init\<close> works on has a \<open>discoveries\<close> field
  that is no array of strings.
\<close>

theorem init_untyped_discoveries_counterexample:
  "get_prop numbersRecord ''version'' = None
   \<and> init lt1_never epoch epoch (freshWorld\<lparr>localStorage := holding numbersRecord\<rparr>)
     = Inl (NotADiscoveryState
         (JObj (AList.update ''discoveries'' (JArr [JNum 1])
                  (properties (createDefaultState epoch)))))"
proof -
  have v: "get_prop numbersRecord ''version'' = None"
    "get_prop numbersRecord ''discoveries'' = Some (JArr [JNum 1])"
    "get_prop numbersRecord ''visitCount'' = None"
    "get_prop numbersRecord ''firstVisitDate'' = None"
    "numbersRecord \<noteq> JNull"
    by (simp_all add: numbersRecord_def get_prop_def)
  have m: "migrate lt1_never epoch numbersRecord
     = Some (JObj (AList.update ''discoveries'' (JArr [JNum 1])
                  (properties (createDefaultState epoch))))"
    by (subst migrate_old)
       (simp_all add: v truthy_def copied_array_def copied_number_def copied_string_def
          properties_def createDefaultState_def SCHEMA_VERSION_def)
  have l: "load lt1_never epoch (holding numbersRecord)
     = JObj (AList.update ''discoveries'' (JArr [JNum 1])
                  (properties (createDefaultState epoch)))"
    by (simp add: load_def holding_def v m)
  have "asDiscoveryState (JObj (AList.update ''discoveries'' (JArr [JNum 1])
                  (properties (createDefaultState epoch)))) = None"
    by (simp add: asDiscoveryState_def strs_prop_def num_prop_def get_prop_def properties_def)
  with l v(1) show ?thesis by (simp add: init_def)
qed

text \<open>
  Claim C8, as amended.  When the storage cannot be read, holds nothing, the empty text or
  an unparsable text, or holds a record that either has the current version and is a
  well-formed \<open>DiscoveryState\<close>, or has another version and a \<open>discoveries\<close> field
  that, if an array, holds only strings, then \<open>init\<close> returns a store whose state is a
  fully typed \<open>DiscoveryState\<close> of the current version: the loaded state with the visit
  counted and the two time stamps set.
\<close>

theorem init_returns_current_schema:
  "getItem_throws (localStorage w) \<or> item (localStorage w) = None
     \<or> item (localStorage w) = Some Empty \<or> item (localStorage w) = Some Unparsable
     \<or> (\<exists>parsed. item (localStorage w) = Some (Parses parsed)
           \<and> (if get_prop parsed ''version'' = Some (JNum SCHEMA_VERSION)
              then asDiscoveryState parsed \<noteq> None
              else \<forall>xs. get_prop parsed ''discoveries'' = Some (JArr xs)
                     \<longrightarrow> strings_of xs \<noteq> None))
   \<longrightarrow> (\<exists>w'. init lt1 c c' w = Inr w'
          \<and> version (state w') = SCHEMA_VERSION
          \<and> (\<exists>s. asDiscoveryState (load lt1 c (localStorage w)) = Some s
                 \<and> state w' = s\<lparr>visitCount := visitCount s + 1,
                                 lastVisitDate := toISOString c',
                                 sessionStart := now c'\<rparr>))"
proof
  assume h: "getItem_throws (localStorage w) \<or> item (localStorage w) = None
     \<or> item (localStorage w) = Some Empty \<or> item (localStorage w) = Some Unparsable
     \<or> (\<exists>parsed. item (localStorage w) = Some (Parses parsed)
           \<and> (if get_prop parsed ''version'' = Some (JNum SCHEMA_VERSION)
              then asDiscoveryState parsed \<noteq> None
              else \<forall>xs. get_prop parsed ''discoveries'' = Some (JArr xs)
                     \<longrightarrow> strings_of xs \<noteq> None))"
  have typed: "\<exists>s. asDiscoveryState (load lt1 c (localStorage w)) = Some s
                   \<and> version s = SCHEMA_VERSION"
  proof -
    let ?st = "localStorage w"
    consider (defaults) "getItem_throws ?st \<or> item ?st = None \<or> item ?st = Some Empty
           \<or> item ?st = Some Unparsable \<or> item ?st = Some (Parses JNull)"
      | (current) parsed where "\<not> getItem_throws ?st" "item ?st = Some (Parses parsed)"
          "get_prop parsed ''version'' = Some (JNum SCHEMA_VERSION)"
          "asDiscoveryState parsed \<noteq> None"
      | (other) parsed where "\<not> getItem_throws ?st" "item ?st = Some (Parses parsed)"
          "parsed \<noteq> JNull" "get_prop parsed ''version'' \<noteq> Some (JNum SCHEMA_VERSION)"
          "\<forall>xs. get_prop parsed ''discoveries'' = Some (JArr xs) \<longrightarrow> strings_of xs \<noteq> None"
      using h by (cases "getItem_throws ?st") (auto split: if_splits)
    then show ?thesis
    proof cases
      case defaults
      then have "load lt1 c ?st = toJson (createDefaultState c)" by (rule load_defaults)
      then show ?thesis by (simp add: createDefaultState_def)
    next
      case current
      then have l: "load lt1 c ?st = parsed" by (simp add: load_current)
      from current(4) obtain s where s: "asDiscoveryState parsed = Some s" by blast
      with current(3) have "version s = SCHEMA_VERSION"
        by (auto simp: asDiscoveryState_def num_prop_def
            split: Option.bind_splits option.splits json.splits)
      with l s show ?thesis by simp
    next
      case other
      show ?thesis
      proof (cases "\<not> truthy (get_prop parsed ''version'')
                    \<or> less_than_1 lt1 (get_prop parsed ''version'')")
        case True
        from strings_of_copied[OF other(5)] obtain ss where
          "strings_of (copied_array (get_prop parsed ''discoveries'') []) = Some ss" by blast
        with load_old_typed[OF other(1-4) True] show ?thesis
          by (auto simp: createDefaultState_def)
      next
        case False
        with load_not_old[OF other(1-4)] show ?thesis
          by (simp add: createDefaultState_def)
      qed
    qed
  qed
  then obtain s where s: "asDiscoveryState (load lt1 c (localStorage w)) = Some s"
    "version s = SCHEMA_VERSION" by blast
  then show "\<exists>w'. init lt1 c c' w = Inr w'
          \<and> version (state w') = SCHEMA_VERSION
          \<and> (\<exists>s. asDiscoveryState (load lt1 c (localStorage w)) = Some s
                 \<and> state w' = s\<lparr>visitCount := visitCount s + 1,
                                 lastVisitDate := toISOString c',
                                 sessionStart := now c'\<rparr>)"
    by (simp add: init_def Let_def)
qed


text \<open>
  The state saved by a first visit, the version-0 record, and an unparsable text with
  storage that refuses writes.
\<close>

theorem init_returns_current_schema_witness:
  "item (localStorage (freshWorld\<lparr>localStorage := localStorage firstVisit\<rparr>))
     = Some (Parses (toJson (state firstVisit)))
   \<and> (\<exists>w'. init lt1_never epoch epoch (freshWorld\<lparr>localStorage := localStorage firstVisit\<rparr>)
               = Inr w'
          \<and> version (state w') = SCHEMA_VERSION)
   \<and> (\<exists>w'. init lt1_never epoch epoch (freshWorld\<lparr>localStorage := holding version0Record\<rparr>)
               = Inr w'
          \<and> version (state w') = SCHEMA_VERSION)
   \<and> (\<exists>w'. init lt1_never epoch epoch
               (freshWorld\<lparr>localStorage :=
                  \<lparr>item = Some Unparsable, getItem_throws = False, setItem_throws = True\<rparr>\<rparr>)
               = Inr w'
          \<and> version (state w') = SCHEMA_VERSION)"
proof -
  let ?w1 = "freshWorld\<lparr>localStorage := localStorage firstVisit\<rparr>"
  let ?w2 = "freshWorld\<lparr>localStorage := holding version0Record\<rparr>"
  let ?w3 = "freshWorld\<lparr>localStorage :=
                  \<lparr>item = Some Unparsable, getItem_throws = False, setItem_throws = True\<rparr>\<rparr>"
  have i1: "item (localStorage ?w1) = Some (Parses (toJson (state firstVisit)))"
    by (simp add: firstVisit_def)
  have "get_prop (toJson (state firstVisit)) ''version'' = Some (JNum SCHEMA_VERSION)"
    by (simp add: version_toJson firstVisit_def createDefaultState_def)
  with i1 have h1: "\<exists>parsed. item (localStorage ?w1) = Some (Parses parsed)
           \<and> (if get_prop parsed ''version'' = Some (JNum SCHEMA_VERSION)
              then asDiscoveryState parsed \<noteq> None
              else \<forall>xs. get_prop parsed ''discoveries'' = Some (JArr xs)
                     \<longrightarrow> strings_of xs \<noteq> None)"
    by simp
  have "get_prop version0Record ''version'' \<noteq> Some (JNum SCHEMA_VERSION)"
    "\<forall>xs. get_prop version0Record ''discoveries'' = Some (JArr xs) \<longrightarrow> strings_of xs \<noteq> None"
    by (simp_all add: version0Record_def get_prop_def)
  then have h2: "\<exists>parsed. item (localStorage ?w2) = Some (Parses parsed)
           \<and> (if get_prop parsed ''version'' = Some (JNum SCHEMA_VERSION)
              then asDiscoveryState parsed \<noteq> None
              else \<forall>xs. get_prop parsed ''discoveries'' = Some (JArr xs)
                     \<longrightarrow> strings_of xs \<noteq> None)"
    by (simp add: holding_def)
  have h3: "item (localStorage ?w3) = Some Unparsable" by simp
  from init_returns_current_schema[of ?w1 lt1_never epoch epoch] h1
  have 1: "\<exists>w'. init lt1_never epoch epoch ?w1 = Inr w'
          \<and> version (state w') = SCHEMA_VERSION"
    by blast
  from init_returns_current_schema[of ?w2 lt1_never epoch epoch] h2
  have 2: "\<exists>w'. init lt1_never epoch epoch ?w2 = Inr w'
          \<and> version (state w') = SCHEMA_VERSION"
    by blast
  from init_returns_current_schema[of ?w3 lt1_never epoch epoch] h3
  have 3: "\<exists>w'. init lt1_never epoch epoch ?w3 = Inr w'
          \<and> version (state w') = SCHEMA_VERSION"
    by blast
  from i1 1 2 3 show ?thesis by blast
qed

end
